theory Spec2Isabelle
  imports Complex_Main "HOL-Library.AList" "HOL-Library.Code_Target_Numeral"
begin

section \<open>The request pipeline of the LLM gateway\<close>

text \<open>
  A shallow embedding of the gateway's request pipeline: the authentication and
  rate-limit middleware, the tenant store with its cache, the proxy handler
  (\<open>CreateCompletion\<close>) with its retry and failover loop, the circuit breaker it
  submits every upstream call to, the streaming pump and the deferred bookkeeping.

  Conventions.
  \<^item> Wall-clock time is a natural number of nanoseconds; a \<open>time.Duration\<close> is a
    number of nanoseconds as well.
  \<^item> Go's \<open>int\<close> and \<open>int64\<close> are modelled as \<open>int\<close>; where the source does
    arithmetic that can leave the 64-bit range the wrap-around is written out
    (\<open>wrap64\<close>).
  \<^item> A Go \<open>(value, error)\<close> result is a sum, \<open>Inl\<close> carrying the error.
  \<^item> What the pipeline obtains from outside the repository (the DynamoDB table, the
    JSON decoder, the upstream providers, the environment) is a parameter of the
    model: a field of a store record or of the record \<open>env\<close>.
  \<^item> Requests are served one after the other; the interleaving of concurrent
    requests is not modelled.
\<close>

subsection \<open>Time and machine integers\<close>

type_synonym time = nat

definition Millisecond :: nat where
  "Millisecond = 1000000"

definition Second :: nat where
  "Second = 1000 * Millisecond"

definition Minute :: nat where
  "Minute = 60 * Second"

text \<open>The value a 64-bit signed integer holds after an operation whose exact result is \<open>x\<close>.\<close>

definition wrap64 :: "int \<Rightarrow> int" where
  "wrap64 x = (x + 2 ^ 63) mod 2 ^ 64 - 2 ^ 63"

subsection \<open>Responses written to the caller\<close>

text \<open>
  \<open>gin.H\<close> is a map; its JSON encoding lists the keys in sorted order, which is the
  order of the association list here. \<open>Header\<close> holds the headers the code sets with
  \<open>c.Header\<close>.
\<close>

datatype json = JString string | JInt int

datatype body = JSON "(string \<times> json) list" | Raw string

record response =
  Status :: int
  Header :: "(string \<times> string) list"
  Body :: body

text \<open>
  A middleware either answers and aborts the chain (\<open>c.AbortWithStatusJSON\<close>) or
  hands on to the next handler (\<open>c.Next\<close>), with what it has put in the context.
\<close>

datatype 'a mw = Abort response | Next 'a

definition StatusBadRequest :: int where "StatusBadRequest = 400"
definition StatusUnauthorized :: int where "StatusUnauthorized = 401"
definition StatusForbidden :: int where "StatusForbidden = 403"
definition StatusNotFound :: int where "StatusNotFound = 404"
definition StatusRequestEntityTooLarge :: int where "StatusRequestEntityTooLarge = 413"
definition StatusTooManyRequests :: int where "StatusTooManyRequests = 429"
definition StatusInternalServerError :: int where "StatusInternalServerError = 500"
definition StatusBadGateway :: int where "StatusBadGateway = 502"

text \<open>\<open>c.JSON(code, gin.H{"error": msg})\<close>, with no header set by the code.\<close>

definition error_response :: "int \<Rightarrow> string \<Rightarrow> response" where
  "error_response code msg =
     \<lparr>Status = code, Header = [], Body = JSON [(''error'', JString msg)]\<rparr>"

subsection \<open>The usage store\<close>

record UsageRecord =
  TenantID :: string
  Timestamp :: time
  RequestID :: string
  ModelID :: string
  InputTokens :: int
  OutputTokens :: int

text \<open>
  \<open>UsageStore.LogUsage\<close> appends a record or fails. \<open>Failures\<close> scripts the sink:
  the outcomes of the coming calls, \<open>True\<close> for a call that fails (and appends
  nothing); once the script is used up every call succeeds, as every call of
  \<open>MockUsageStore\<close> does.
\<close>

record UsageStore =
  Records :: "UsageRecord list"
  Failures :: "bool list"

definition LogUsage :: "UsageRecord \<Rightarrow> UsageStore \<Rightarrow> string option \<times> UsageStore" where
  "LogUsage record u =
     (case Failures u of
        True # fs \<Rightarrow> (Some ''failed to put item to DynamoDB'', u\<lparr>Failures := fs\<rparr>)
      | False # fs \<Rightarrow> (None, u\<lparr>Records := Records u @ [record], Failures := fs\<rparr>)
      | [] \<Rightarrow> (None, u\<lparr>Records := Records u @ [record]\<rparr>))"

subsection \<open>The tenant store\<close>

record Tenant =
  APIKey :: string
  TenantID :: string
  Name :: string
  RPMLimit :: int
  TPMLimit :: int
  AllowedModels :: "string list"
  IsActive :: bool

text \<open>
  What \<open>GetItem\<close> and \<open>UnmarshalMap\<close> yield for a key: a transport error, no
  item, an item that does not unmarshal, or the unmarshalled record, in which an
  attribute the item does not carry has Go's zero value (\<open>0\<close>, the empty list,
  \<open>False\<close>).
\<close>

datatype item = GetItemError | NoItem | UnmarshalError | Item Tenant

record cachedTenant =
  tenant :: Tenant
  expiresAt :: time

record DynamoDBTenantStore =
  table :: "string \<Rightarrow> item"
  cache :: "string \<rightharpoonup> cachedTenant"

text \<open>Steps 2 to 4 of \<open>DynamoDBTenantStore.GetTenant\<close>: the read of the table.\<close>

definition fetchTenant ::
  "DynamoDBTenantStore \<Rightarrow> time \<Rightarrow> string \<Rightarrow> (string + Tenant option) \<times> DynamoDBTenantStore" where
  "fetchTenant s now apiKey =
     (case table s apiKey of
        GetItemError \<Rightarrow> (Inl ''failed to get item from DynamoDB'', s)
      | NoItem \<Rightarrow> (Inr None, s)
      | UnmarshalError \<Rightarrow> (Inl ''failed to unmarshal tenant'', s)
      | Item t0 \<Rightarrow>
          if \<not> IsActive t0 then (Inl ''tenant is not active'', s)
          else
            let t1 = (if RPMLimit t0 = 0 then t0\<lparr>RPMLimit := 100\<rparr> else t0);
                t2 = (if TPMLimit t1 = 0 then t1\<lparr>TPMLimit := 100000\<rparr> else t1)
            in (Inr (Some t2),
                s\<lparr>cache := (cache s)(apiKey \<mapsto> \<lparr>tenant = t2, expiresAt = now + 60 * Minute\<rparr>)\<rparr>))"

definition GetTenant ::
  "DynamoDBTenantStore \<Rightarrow> time \<Rightarrow> string \<Rightarrow> (string + Tenant option) \<times> DynamoDBTenantStore" where
  "GetTenant s now apiKey =
     (case cache s apiKey of
        Some entry \<Rightarrow>
          if now < expiresAt entry then (Inr (Some (tenant entry)), s)
          else fetchTenant s now apiKey
      | None \<Rightarrow> fetchTenant s now apiKey)"

text \<open>\<open>MockTenantStore.GetTenant\<close>: a map from API keys to tenants.\<close>

definition MockGetTenant ::
  "(string \<rightharpoonup> Tenant) \<Rightarrow> string \<Rightarrow> (string + Tenant option) \<times> (string \<rightharpoonup> Tenant)" where
  "MockGetTenant m apiKey =
     (case m apiKey of
        Some t \<Rightarrow> if \<not> IsActive t then (Inl ''tenant is not active'', m) else (Inr (Some t), m)
      | None \<Rightarrow> (Inr None, m))"

subsection \<open>The authentication middleware\<close>

text \<open>\<open>strings.Split\<close> with a separator of one byte: one more part than separators.\<close>

fun Split :: "string \<Rightarrow> char \<Rightarrow> string list" where
  "Split [] sep = [[]]"
| "Split (c # cs) sep =
     (if c = sep then [] # Split cs sep
      else (case Split cs sep of [] \<Rightarrow> [[c]] | p # ps \<Rightarrow> (c # p) # ps))"

text \<open>
  \<open>AuthMiddleware\<close> over any tenant store \<open>getTenant\<close> with state \<open>'s\<close>;
  \<open>authHeader\<close> is \<open>c.GetHeader("Authorization")\<close>, empty when the header is missing.
  On success the tenant is put in the context and the chain goes on.
\<close>

definition AuthMiddleware ::
  "('s \<Rightarrow> string \<Rightarrow> (string + Tenant option) \<times> 's) \<Rightarrow> 's \<Rightarrow> string \<Rightarrow> Tenant mw \<times> 's" where
  "AuthMiddleware getTenant s authHeader =
     (if authHeader = [] then
        (Abort (error_response StatusUnauthorized ''Missing Authorization header''), s)
      else
        let parts = Split authHeader CHR '' '' in
        if length parts \<noteq> 2 \<or> parts ! 0 \<noteq> ''Bearer'' then
          (Abort (error_response StatusUnauthorized ''Invalid Authorization header format''), s)
        else
          let apiKey = parts ! 1 in
          (case getTenant s apiKey of
             (Inl err, s') \<Rightarrow> (Abort (error_response StatusUnauthorized ''Invalid API Key''), s')
           | (Inr None, s') \<Rightarrow> (Abort (error_response StatusUnauthorized ''Invalid API Key''), s')
           | (Inr (Some t), s') \<Rightarrow> (Next t, s')))"

subsection \<open>The rate-limit store and the admission middleware\<close>

text \<open>
  \<open>MockRateLimitStore\<close>: two Go maps to \<open>int64\<close> (a key that is absent reads as
  \<open>0\<close>) and the error the tests can force.
\<close>

record MockRateLimitStore =
  RPM :: "string \<Rightarrow> int"
  TPM :: "string \<Rightarrow> int"
  Err :: "string option"

definition IncrementRPM :: "MockRateLimitStore \<Rightarrow> string \<Rightarrow> (string + int) \<times> MockRateLimitStore" where
  "IncrementRPM m tenantID =
     (case Err m of
        Some e \<Rightarrow> (Inl e, m)
      | None \<Rightarrow>
          let m' = m\<lparr>RPM := (RPM m)(tenantID := wrap64 (RPM m tenantID + 1))\<rparr>
          in (Inr (RPM m' tenantID), m'))"

definition IncrementTPM ::
  "MockRateLimitStore \<Rightarrow> string \<Rightarrow> int \<Rightarrow> (string + int) \<times> MockRateLimitStore" where
  "IncrementTPM m tenantID tokens =
     (case Err m of
        Some e \<Rightarrow> (Inl e, m)
      | None \<Rightarrow>
          let m' = m\<lparr>TPM := (TPM m)(tenantID := wrap64 (TPM m tenantID + tokens))\<rparr>
          in (Inr (TPM m' tenantID), m'))"

definition GetTPM :: "MockRateLimitStore \<Rightarrow> string \<Rightarrow> (string + int) \<times> MockRateLimitStore" where
  "GetTPM m tenantID =
     (case Err m of
        Some e \<Rightarrow> (Inl e, m)
      | None \<Rightarrow> (Inr (TPM m tenantID), m))"

definition rate_limit_response :: "string \<Rightarrow> int \<Rightarrow> response" where
  "rate_limit_response msg limit =
     \<lparr>Status = StatusTooManyRequests, Header = [(''Retry-After'', ''60'')],
      Body = JSON [(''error'', JString msg), (''limit'', JInt limit)]\<rparr>"

text \<open>\<open>tenantCtx\<close> is the context slot \<open>tenant\<close>, \<open>None\<close> when nothing has set it.\<close>

definition RateLimitMiddleware ::
  "MockRateLimitStore \<Rightarrow> Tenant option \<Rightarrow> unit mw \<times> MockRateLimitStore" where
  "RateLimitMiddleware rlStore tenantCtx =
     (case tenantCtx of
        None \<Rightarrow> (Abort (error_response StatusInternalServerError ''Tenant context missing''), rlStore)
      | Some tnt \<Rightarrow>
          (case IncrementRPM rlStore (TenantID tnt) of
             (Inl err, m1) \<Rightarrow>
               (Abort (error_response StatusInternalServerError ''Rate limit check failed''), m1)
           | (Inr currentRPM, m1) \<Rightarrow>
               if currentRPM > RPMLimit tnt then
                 (Abort (rate_limit_response ''Rate limit exceeded (RPM)'' (RPMLimit tnt)), m1)
               else
                 (case GetTPM m1 (TenantID tnt) of
                    (Inl err, m2) \<Rightarrow>
                      (Abort (error_response StatusInternalServerError
                                ''Rate limit check failed (TPM)''), m2)
                  | (Inr currentTPM, m2) \<Rightarrow>
                      if currentTPM > TPMLimit tnt then
                        (Abort (rate_limit_response ''Rate limit exceeded (TPM)'' (TPMLimit tnt)),
                         m2)
                      else (Next (), m2))))"

text \<open>
  \<open>n\<close> requests of one tenant, one after the other, against the store: the answers
  in order, and the store they leave.
\<close>

fun admit_all :: "nat \<Rightarrow> Tenant \<Rightarrow> MockRateLimitStore \<Rightarrow> unit mw list \<times> MockRateLimitStore" where
  "admit_all 0 tnt m = ([], m)"
| "admit_all (Suc n) tnt m =
     (case RateLimitMiddleware m (Some tnt) of
        (r, m1) \<Rightarrow> (case admit_all n tnt m1 of (rs, m2) \<Rightarrow> (r # rs, m2)))"

subsection \<open>The circuit breaker\<close>

text \<open>
  The handler submits every upstream call to one \<open>gobreaker.CircuitBreaker\<close>. The
  library is not part of the repository; its \<open>Execute\<close> is modelled here as the
  library documents and implements it (\<open>beforeRequest\<close>, the call, \<open>afterRequest\<close>),
  with the settings \<open>NewHandler\<close> gives it: \<open>MaxRequests\<close>, \<open>Interval\<close>,
  \<open>Timeout\<close> and \<open>ReadyToTrip\<close>. \<open>NewHandler\<close> sets no \<open>IsSuccessful\<close>, so
  the library's default holds: a call is a success exactly when the function given to
  \<open>Execute\<close> returns a nil error. The counts are \<open>uint32\<close>.
\<close>

datatype State = StateClosed | StateHalfOpen | StateOpen

record Counts =
  Requests :: nat
  TotalSuccesses :: nat
  TotalFailures :: nat
  ConsecutiveSuccesses :: nat
  ConsecutiveFailures :: nat

definition uint32 :: "nat \<Rightarrow> nat" where
  "uint32 n = n mod 2 ^ 32"

definition MaxRequests :: nat where
  "MaxRequests = 5"

definition Interval :: nat where
  "Interval = 60 * Second"

definition Timeout :: nat where
  "Timeout = 30 * Second"

text \<open>
  \<open>ReadyToTrip\<close> of \<open>NewHandler\<close>. The source divides in \<open>float64\<close>; for counts
  below \<open>2 ^ 32\<close> the rounded quotient is at least the rounded \<open>0.6\<close> exactly when
  the exact quotient is at least \<open>0.6\<close>, and with no request the quotient is NaN
  there and \<open>0\<close> here, neither of which passes the first test.
\<close>

definition ReadyToTrip :: "Counts \<Rightarrow> bool" where
  "ReadyToTrip c =
     (let failureRatio = real (TotalFailures c) / real (Requests c)
      in Requests c \<ge> 10 \<and> failureRatio \<ge> 0.6)"

definition onRequest :: "Counts \<Rightarrow> Counts" where
  "onRequest c = c\<lparr>Requests := uint32 (Requests c + 1)\<rparr>"

definition onSuccess :: "Counts \<Rightarrow> Counts" where
  "onSuccess c =
     c\<lparr>TotalSuccesses := uint32 (TotalSuccesses c + 1),
       ConsecutiveSuccesses := uint32 (ConsecutiveSuccesses c + 1),
       ConsecutiveFailures := 0\<rparr>"

definition onFailure :: "Counts \<Rightarrow> Counts" where
  "onFailure c =
     c\<lparr>TotalFailures := uint32 (TotalFailures c + 1),
       ConsecutiveFailures := uint32 (ConsecutiveFailures c + 1),
       ConsecutiveSuccesses := 0\<rparr>"

definition clear :: Counts where
  "clear = \<lparr>Requests = 0, TotalSuccesses = 0, TotalFailures = 0,
            ConsecutiveSuccesses = 0, ConsecutiveFailures = 0\<rparr>"

text \<open>\<open>expiry\<close> is \<open>None\<close> for Go's zero time.\<close>

record CircuitBreaker =
  state :: State
  generation :: nat
  counts :: Counts
  expiry :: "time option"

definition toNewGeneration :: "time \<Rightarrow> CircuitBreaker \<Rightarrow> CircuitBreaker" where
  "toNewGeneration now b =
     b\<lparr>generation := (generation b + 1) mod 2 ^ 64,
       counts := clear,
       expiry := (case state b of
                    StateClosed \<Rightarrow> Some (now + Interval)
                  | StateOpen \<Rightarrow> Some (now + Timeout)
                  | StateHalfOpen \<Rightarrow> None)\<rparr>"

definition setState :: "State \<Rightarrow> time \<Rightarrow> CircuitBreaker \<Rightarrow> CircuitBreaker" where
  "setState st now b = (if state b = st then b else toNewGeneration now (b\<lparr>state := st\<rparr>))"

text \<open>\<open>t.Before(now)\<close>; the zero time is before every \<open>now\<close>.\<close>

definition Before :: "time option \<Rightarrow> time \<Rightarrow> bool" where
  "Before t now = (case t of None \<Rightarrow> True | Some e \<Rightarrow> e < now)"

definition currentState :: "time \<Rightarrow> CircuitBreaker \<Rightarrow> CircuitBreaker" where
  "currentState now b =
     (case state b of
        StateClosed \<Rightarrow>
          if expiry b \<noteq> None \<and> Before (expiry b) now then toNewGeneration now b else b
      | StateOpen \<Rightarrow>
          if Before (expiry b) now then setState StateHalfOpen now b else b
      | StateHalfOpen \<Rightarrow> b)"

definition NewCircuitBreaker :: "time \<Rightarrow> CircuitBreaker" where
  "NewCircuitBreaker now =
     toNewGeneration now \<lparr>state = StateClosed, generation = 0, counts = clear, expiry = None\<rparr>"

text \<open>
  The errors the retry loop sees: the two of the breaker, and the error of
  \<open>http.Client.Do\<close> (a transport failure; a response of any status is no error).
\<close>

datatype error = ErrOpenState | ErrTooManyRequests | TransportError string

definition Error :: "error \<Rightarrow> string" where
  "Error e =
     (case e of
        ErrOpenState \<Rightarrow> ''circuit breaker is open''
      | ErrTooManyRequests \<Rightarrow> ''too many requests''
      | TransportError msg \<Rightarrow> msg)"

definition beforeRequest :: "time \<Rightarrow> CircuitBreaker \<Rightarrow> (error + nat) \<times> CircuitBreaker" where
  "beforeRequest now b =
     (let b1 = currentState now b in
      if state b1 = StateOpen then (Inl ErrOpenState, b1)
      else if state b1 = StateHalfOpen \<and> Requests (counts b1) \<ge> MaxRequests then
        (Inl ErrTooManyRequests, b1)
      else (Inr (generation b1), b1\<lparr>counts := onRequest (counts b1)\<rparr>))"

definition cb_onSuccess :: "time \<Rightarrow> CircuitBreaker \<Rightarrow> CircuitBreaker" where
  "cb_onSuccess now b =
     (case state b of
        StateClosed \<Rightarrow> b\<lparr>counts := onSuccess (counts b)\<rparr>
      | StateHalfOpen \<Rightarrow>
          (let b1 = b\<lparr>counts := onSuccess (counts b)\<rparr> in
           if ConsecutiveSuccesses (counts b1) \<ge> MaxRequests then setState StateClosed now b1
           else b1)
      | StateOpen \<Rightarrow> b)"

definition cb_onFailure :: "time \<Rightarrow> CircuitBreaker \<Rightarrow> CircuitBreaker" where
  "cb_onFailure now b =
     (case state b of
        StateClosed \<Rightarrow>
          (let b1 = b\<lparr>counts := onFailure (counts b)\<rparr> in
           if ReadyToTrip (counts b1) then setState StateOpen now b1 else b1)
      | StateHalfOpen \<Rightarrow> setState StateOpen now b
      | StateOpen \<Rightarrow> b)"

definition afterRequest :: "time \<Rightarrow> nat \<Rightarrow> bool \<Rightarrow> CircuitBreaker \<Rightarrow> CircuitBreaker" where
  "afterRequest now bef success b =
     (let b1 = currentState now b in
      if generation b1 \<noteq> bef then b1
      else if success then cb_onSuccess now b1
      else cb_onFailure now b1)"

subsection \<open>Requests, upstream responses and the world of the handler\<close>

record Message =
  Role :: string
  Content :: string

record ChatRequest =
  Model :: string
  Messages :: "Message list"
  Stream :: bool

record Model =
  ModelID :: string
  ProviderName :: string
  BaseURLs :: "string list"
  APIKeyEnv :: string

text \<open>
  An inbound request: the headers the pipeline reads (\<open>c.GetHeader\<close> gives the empty
  string for a header that is absent), the bytes of the body, and whether reading the
  body fails for another reason than its size.
\<close>

record request =
  Authorization :: string
  XLLMRetryMax :: string
  XLLMRetryBackoffMs :: string
  RequestBody :: string
  ReadFails :: bool

text \<open>
  An upstream response: its status, its headers, and its body as the two readers of
  the source see it: \<open>BodyBytes\<close> is what \<open>ioutil.ReadAll\<close> returns (after
  \<open>ReadAllTime\<close>), \<open>BodyLines\<close> the tokens of \<open>bufio.Scanner\<close> in order, each
  with the time \<open>scanner.Scan\<close> waits for it. A body that ends early, by an error or
  by a line the scanner refuses, is a shorter list.
\<close>

record Response =
  StatusCode :: int
  RespHeader :: "(string \<times> string list) list"
  BodyBytes :: string
  ReadAllTime :: time
  BodyLines :: "(time \<times> string) list"

text \<open>
  What the handler gets from outside: the two uses of \<open>json.Unmarshal\<close> (\<open>None\<close>
  for an error; for a stream chunk the decoded value is the list of the
  \<open>delta.content\<close> of its \<open>choices\<close>), the model store, the environment variables,
  whether \<open>http.NewRequestWithContext\<close> accepts a URL, and \<open>httpClient.Do\<close>: the
  \<open>n\<close>-th upstream call of the process, to a URL, takes some time and ends in a
  transport error or a response.
\<close>

record env =
  Unmarshal_ChatRequest :: "string \<Rightarrow> ChatRequest option"
  Unmarshal_partial :: "string \<Rightarrow> string list option"
  GetModel :: "string \<Rightarrow> string + Model option"
  Getenv :: "string \<Rightarrow> string"
  NewRequest_ok :: "string \<Rightarrow> bool"
  Do :: "nat \<Rightarrow> string \<Rightarrow> time \<times> (string + Response)"

text \<open>The arguments of the deferred goroutine, and the request's start time it captures.\<close>

record task =
  task_tid :: string
  task_mid :: string
  task_in :: int
  task_out :: int
  task_start :: time

text \<open>
  The handler and what it acts on: its breaker, its wait group (the tasks scheduled),
  the wall clock, the URLs contacted so far, and the observations of the two metrics
  \<open>llm_ttft_seconds\<close> (tenant, model, duration) and \<open>llm_token_usage_total\<close>
  (tenant, model, input, output).
\<close>

record Handler =
  cb :: CircuitBreaker
  wg :: "task list"
  clock :: time
  contacted :: "string list"
  llmTTFT :: "(string \<times> string \<times> nat) list"
  llmTokenUsage :: "(string \<times> string \<times> int \<times> int) list"

text \<open>\<open>h.cb.Execute(func() { return h.httpClient.Do(proxyReq) })\<close> for a request to \<open>url\<close>.\<close>

definition Execute :: "env \<Rightarrow> string \<Rightarrow> Handler \<Rightarrow> (error + Response) \<times> Handler" where
  "Execute E url h =
     (case beforeRequest (clock h) (cb h) of
        (Inl err, b1) \<Rightarrow> (Inl err, h\<lparr>cb := b1\<rparr>)
      | (Inr gen, b1) \<Rightarrow>
          (case Do E (length (contacted h)) url of
             (took, res) \<Rightarrow>
               let t1 = clock h + took;
                   h1 = h\<lparr>clock := t1, contacted := contacted h @ [url]\<rparr>
               in (case res of
                     Inl msg \<Rightarrow> (Inl (TransportError msg), h1\<lparr>cb := afterRequest t1 gen False b1\<rparr>)
                   | Inr r \<Rightarrow> (Inr r, h1\<lparr>cb := afterRequest t1 gen True b1\<rparr>))))"

subsection \<open>The retry policy\<close>

text \<open>
  \<open>strconv.Atoi\<close>: an optional sign and at least one decimal digit; \<open>None\<close> for a
  syntax error and for a value outside the 64-bit range.
\<close>

definition digit :: "char \<Rightarrow> int option" where
  "digit ch = (let n = (of_char ch :: nat) in if 48 \<le> n \<and> n \<le> 57 then Some (int n - 48) else None)"

fun digits :: "string \<Rightarrow> int \<Rightarrow> int option" where
  "digits [] n = Some n"
| "digits (ch # s) n = (case digit ch of None \<Rightarrow> None | Some d \<Rightarrow> digits s (n * 10 + d))"

definition Atoi :: "string \<Rightarrow> int option" where
  "Atoi s =
     (case s of
        [] \<Rightarrow> None
      | c # cs \<Rightarrow>
          let ds = (if c = CHR ''-'' \<or> c = CHR ''+'' then cs else s) in
          if ds = [] then None
          else (case digits ds 0 of
                  None \<Rightarrow> None
                | Some n \<Rightarrow>
                    let v = (if c = CHR ''-'' then - n else n) in
                    if v < - (2 ^ 63) \<or> v > 2 ^ 63 - 1 then None else Some v))"

definition retryMax_of :: "request \<Rightarrow> int" where
  "retryMax_of req =
     (let retryMax = 3; hVal = XLLMRetryMax req in
      if hVal \<noteq> [] then
        (case Atoi hVal of
           Some val \<Rightarrow> if val \<ge> 0 \<and> val \<le> 10 then val else retryMax
         | None \<Rightarrow> retryMax)
      else retryMax)"

definition backoffMs_of :: "request \<Rightarrow> int" where
  "backoffMs_of req =
     (let backoffMs = 100; hVal = XLLMRetryBackoffMs req in
      if hVal \<noteq> [] then
        (case Atoi hVal of
           Some val \<Rightarrow> if val \<ge> 0 then val else backoffMs
         | None \<Rightarrow> backoffMs)
      else backoffMs)"

text \<open>
  The pause before the attempt numbered \<open>attempt\<close>, in nanoseconds:
  \<open>time.Duration(backoffMs) * time.Millisecond * time.Duration(math.Pow(2.0, attempt-1))\<close>,
  two 64-bit products. \<open>time.Sleep\<close> of a duration that is not positive returns at once.
\<close>

definition sleepTime :: "int \<Rightarrow> int \<Rightarrow> int" where
  "sleepTime backoffMs att = wrap64 (wrap64 (backoffMs * int Millisecond) * 2 ^ nat (att - 1))"

definition Sleep :: "int \<Rightarrow> Handler \<Rightarrow> Handler" where
  "Sleep d h = h\<lparr>clock := clock h + nat d\<rparr>"

subsection \<open>The retry and failover loop\<close>

text \<open>The variables of the loop of \<open>CreateCompletion\<close>.\<close>

record loop =
  attempt :: int
  urlIndex :: nat
  resp :: "Response option"
  lastErr :: "error option"

text \<open>
  The loop ends by \<open>return\<close> when the upstream request cannot be built, and
  otherwise leaves \<open>resp\<close> and \<open>lastErr\<close> to the code after it.
\<close>

datatype outcome = RequestFailed | Finished "Response option" "error option"

definition record_result :: "error + Response \<Rightarrow> loop \<Rightarrow> loop" where
  "record_result res l =
     (case res of
        Inl cbErr \<Rightarrow> l\<lparr>lastErr := Some cbErr\<rparr>
      | Inr r \<Rightarrow> l\<lparr>resp := Some r, lastErr := None\<rparr>)"

text \<open>
  The tests on \<open>resp.StatusCode\<close>. Where the source reads the status \<open>lastErr\<close> is
  nil and \<open>resp\<close> was set by the same or an earlier attempt; the case \<open>None\<close> is there
  to make the functions total.
\<close>

definition succeeded :: "loop \<Rightarrow> bool" where
  "succeeded l =
     (lastErr l = None \<and>
      (case resp l of Some r \<Rightarrow> StatusCode r < 500 \<and> StatusCode r \<noteq> 429 | None \<Rightarrow> False))"

definition shouldFailover :: "loop \<Rightarrow> bool" where
  "shouldFailover l =
     (lastErr l \<noteq> None \<or>
      (case resp l of Some r \<Rightarrow> StatusCode r \<ge> 500 \<or> StatusCode r = 429 | None \<Rightarrow> False))"

definition failure_handling :: "int \<Rightarrow> int \<Rightarrow> loop \<Rightarrow> Handler \<Rightarrow> loop \<times> Handler" where
  "failure_handling retryMax backoffMs l h =
     (let l1 = l\<lparr>attempt := attempt l + 1\<rparr>;
          l2 = (if shouldFailover l1 then l1\<lparr>urlIndex := urlIndex l1 + 1\<rparr> else l1)
      in if attempt l2 \<le> retryMax then
           (if (case resp l2 of Some r \<Rightarrow> StatusCode r = 429 | None \<Rightarrow> False) \<and> shouldFailover l2
            then (l2, h)
            else (l2, Sleep (sleepTime backoffMs (attempt l2)) h))
         else (l2, h))"

lemma attempt_record_result: "attempt (record_result res l) = attempt l"
  by (simp add: record_result_def split: sum.splits)

lemma attempt_failure_handling:
  "failure_handling retryMax backoffMs l h = (l2, h2) \<Longrightarrow> attempt l2 = attempt l + 1"
  by (auto simp: failure_handling_def Let_def split: if_splits)

function retry ::
  "env \<Rightarrow> string list \<Rightarrow> int \<Rightarrow> int \<Rightarrow> loop \<Rightarrow> Handler \<Rightarrow> outcome \<times> Handler" where
  "retry E baseURLs retryMax backoffMs l h =
     (if attempt l \<le> retryMax then
        (let currentURL = baseURLs ! (urlIndex l mod length baseURLs) in
         if \<not> NewRequest_ok E currentURL then (RequestFailed, h)
         else
           (case Execute E currentURL h of
              (res, h1) \<Rightarrow>
                let l1 = record_result res l in
                if res = Inl ErrOpenState then (Finished (resp l1) (lastErr l1), h1)
                else if succeeded l1 then (Finished (resp l1) (lastErr l1), h1)
                else
                  (case failure_handling retryMax backoffMs l1 h1 of
                     (l2, h2) \<Rightarrow> retry E baseURLs retryMax backoffMs l2 h2)))
      else (Finished (resp l) (lastErr l), h))"
  by pat_completeness auto
termination
  by (relation "measure (\<lambda>(E, baseURLs, retryMax, backoffMs, l, h). nat (retryMax + 1 - attempt l))")
     (auto simp: attempt_record_result split: prod.splits dest!: attempt_failure_handling)

subsection \<open>The streaming pump\<close>

definition HasPrefix :: "string \<Rightarrow> string \<Rightarrow> bool" where
  "HasPrefix s pre = (take (length pre) s = pre)"

definition TrimPrefix :: "string \<Rightarrow> string \<Rightarrow> string" where
  "TrimPrefix s pre = (if HasPrefix s pre then drop (length pre) s else s)"

text \<open>What one line adds to \<open>outputTokens\<close>.\<close>

definition line_tokens :: "env \<Rightarrow> string \<Rightarrow> int" where
  "line_tokens E line =
     (if HasPrefix line ''data: '' then
        (let data = TrimPrefix line ''data: '' in
         if data = ''[DONE]'' then 0
         else (case Unmarshal_partial E data of
                 Some choices \<Rightarrow>
                   if length choices > 0 then int (length (choices ! 0)) div 4 else 0
               | None \<Rightarrow> 0))
      else 0)"

text \<open>
  The loop \<open>for scanner.Scan()\<close> of \<open>streamResponse\<close> over the tokens left, with
  its variables \<open>outputTokens\<close> and \<open>firstByte\<close> and the bytes written to the
  client so far.
\<close>

fun scan ::
  "env \<Rightarrow> string \<Rightarrow> string \<Rightarrow> time \<Rightarrow> (time \<times> string) list \<Rightarrow> int \<Rightarrow> bool \<Rightarrow> string \<Rightarrow> Handler
     \<Rightarrow> int \<times> string \<times> Handler" where
  "scan E tenantID model start [] outputTokens firstByte written h = (outputTokens, written, h)"
| "scan E tenantID model start ((wait, line) # rest) outputTokens firstByte written h =
     (let h1 = h\<lparr>clock := clock h + wait\<rparr>;
          h2 = (if firstByte
                then h1\<lparr>llmTTFT := llmTTFT h1 @ [(tenantID, model, clock h1 - start)]\<rparr>
                else h1)
      in scan E tenantID model start rest (outputTokens + line_tokens E line) False
           (written @ line @ [CHR 0x0A]) h2)"

definition streamResponse ::
  "env \<Rightarrow> (time \<times> string) list \<Rightarrow> string \<Rightarrow> string \<Rightarrow> time \<Rightarrow> Handler \<Rightarrow> int \<times> string \<times> Handler" where
  "streamResponse E body tenantID model start h = scan E tenantID model start body 0 True [] h"

subsection \<open>Deferred bookkeeping\<close>

text \<open>
  The loop \<open>for i := 0; i < 3; i++\<close> of the goroutine, from \<open>i\<close> on: the store it
  leaves and the pauses it has made.
\<close>

function log_usage :: "nat \<Rightarrow> UsageRecord \<Rightarrow> UsageStore \<Rightarrow> nat list \<Rightarrow> UsageStore \<times> nat list" where
  "log_usage i usageRec u slept =
     (if i < 3 then
        (case LogUsage usageRec u of
           (Some err, u1) \<Rightarrow> log_usage (i + 1) usageRec u1 (slept @ [100 * (i + 1) * Millisecond])
         | (None, u1) \<Rightarrow> (u1, slept))
      else (u, slept))"
  by pat_completeness auto
termination
  by (relation "measure (\<lambda>(i, usageRec, u, slept). 3 - i)") auto

text \<open>
  The goroutine \<open>CreateCompletion\<close> starts, run on the rate-limit store and the usage
  store; \<open>requestID\<close> is the UUID it draws. The result is the two stores and the pauses
  made between the sink calls.
\<close>

definition usage_record :: "string \<Rightarrow> task \<Rightarrow> UsageRecord" where
  "usage_record requestID t =
     \<lparr>UsageRecord.TenantID = task_tid t, Timestamp = task_start t, RequestID = requestID,
      UsageRecord.ModelID = task_mid t, InputTokens = task_in t, OutputTokens = task_out t\<rparr>"

definition bookkeeping ::
  "string \<Rightarrow> task \<Rightarrow> MockRateLimitStore \<Rightarrow> UsageStore
     \<Rightarrow> MockRateLimitStore \<times> UsageStore \<times> nat list" where
  "bookkeeping requestID t rl us =
     (let estTokens = task_in t + task_out t;
          rl1 = snd (IncrementTPM rl (task_tid t) estTokens);
          usageRec = usage_record requestID t
      in (case log_usage 0 usageRec us [] of (us1, slept) \<Rightarrow> (rl1, us1, slept)))"

subsection \<open>The proxy handler\<close>

text \<open>
  What the first four steps of \<open>CreateCompletion\<close> establish before the loop, under
  the names of the source's variables.
\<close>

record plan =
  caller :: Tenant
  bodyBytes :: string
  chatReq :: ChatRequest
  baseURLs :: "string list"
  apiKey :: string
  retryMax :: int
  backoffMs :: int

text \<open>The loop \<open>for _, m := range tenant.AllowedModels\<close>.\<close>

definition allowed :: "Tenant \<Rightarrow> string \<Rightarrow> bool" where
  "allowed tn m = (\<exists>a \<in> set (AllowedModels tn). a = ''*'' \<or> a = m)"

text \<open>
  Steps 1 to 4 and the retry policy: each early \<open>return\<close> is the response on the
  left. The body is cut off by \<open>http.MaxBytesReader\<close> at 10 MiB.
\<close>

definition intake :: "env \<Rightarrow> Tenant option \<Rightarrow> request \<Rightarrow> response + plan" where
  "intake E tenantCtx req =
     (case tenantCtx of
        None \<Rightarrow> Inl (error_response StatusInternalServerError ''Tenant context missing'')
      | Some tn \<Rightarrow>
          if length (RequestBody req) > 10 * 1024 * 1024 then
            Inl (error_response StatusRequestEntityTooLarge ''Request body too large (limit: 10MB)'')
          else if ReadFails req then
            Inl (error_response StatusBadRequest ''Failed to read request body'')
          else
            (case Unmarshal_ChatRequest E (RequestBody req) of
               None \<Rightarrow> Inl (error_response StatusBadRequest ''Invalid JSON body'')
             | Some cr \<Rightarrow>
                 if length (Messages cr) > 50 then
                   Inl (error_response StatusBadRequest
                          ''Too many messages in conversation (max: 50)'')
                 else if \<not> allowed tn (Model cr) then
                   Inl (error_response StatusForbidden ''Model not allowed for this tenant'')
                 else
                   (case GetModel E (Model cr) of
                      Inl err \<Rightarrow>
                        Inl (error_response StatusInternalServerError
                               ''Failed to resolve model config'')
                    | Inr None \<Rightarrow>
                        Inl (error_response StatusNotFound ''Model configuration not found'')
                    | Inr (Some modelConfig) \<Rightarrow>
                        if length (BaseURLs modelConfig) = 0 then
                          Inl (error_response StatusInternalServerError
                                 ''Misconfigured model: no base URLs'')
                        else
                          Inr \<lparr>caller = tn, bodyBytes = RequestBody req, chatReq = cr,
                               baseURLs = BaseURLs modelConfig,
                               apiKey = Getenv E (APIKeyEnv modelConfig),
                               retryMax = retryMax_of req, backoffMs = backoffMs_of req\<rparr>)))"

text \<open>
  \<open>c.Header(key, value)\<close> of gin deletes the header for an empty value and sets it
  otherwise; step 7 calls it for every value of every upstream header.
\<close>

definition c_Header :: "string \<Rightarrow> string \<Rightarrow> (string \<times> string) list \<Rightarrow> (string \<times> string) list" where
  "c_Header key v hs = (if v = [] then AList.delete key hs else AList.update key v hs)"

definition forward_headers :: "(string \<times> string list) list \<Rightarrow> (string \<times> string) list" where
  "forward_headers hdr = fold (\<lambda>(k, vv) hs. fold (c_Header k) vv hs) hdr []"

text \<open>
  Steps 7 to 9, for the response \<open>r\<close> the loop has left: status and headers, the
  body (streamed or buffered), the goroutine started, the token metric.
\<close>

definition forward :: "env \<Rightarrow> plan \<Rightarrow> time \<Rightarrow> Response \<Rightarrow> Handler \<Rightarrow> response \<times> Handler" where
  "forward E p start r h =
     (let inputTokens = int (length (bodyBytes p)) div 4;
          tid = Tenant.TenantID (caller p);
          mid = Model (chatReq p)
      in (case (if Stream (chatReq p) then streamResponse E (BodyLines r) tid mid start h
                else (int (length (BodyBytes r)) div 4, BodyBytes r,
                      h\<lparr>clock := clock h + ReadAllTime r\<rparr>)) of
            (outputTokens, written, h1) \<Rightarrow>
              (\<lparr>Status = StatusCode r, Header = forward_headers (RespHeader r), Body = Raw written\<rparr>,
               h1\<lparr>wg := wg h1 @ [\<lparr>task_tid = tid, task_mid = mid, task_in = inputTokens,
                                   task_out = outputTokens, task_start = start\<rparr>],
                   llmTokenUsage := llmTokenUsage h1 @ [(tid, mid, inputTokens, outputTokens)]\<rparr>)))"

text \<open>
  The code after the loop. With \<open>lastErr\<close> nil and \<open>resp\<close> nil the source
  dereferences a nil pointer and gin's recovery answers 500 with no body; the loop
  never leaves that state (\<open>retryMax\<close> is not negative, so it runs at least once).
\<close>

definition respond ::
  "env \<Rightarrow> plan \<Rightarrow> time \<Rightarrow> Response option \<Rightarrow> error option \<Rightarrow> Handler \<Rightarrow> response \<times> Handler" where
  "respond E p start ro eo h =
     (case eo of
        Some e \<Rightarrow>
          (\<lparr>Status = StatusBadGateway, Header = [],
            Body = JSON [(''details'', JString (Error e)),
                         (''error'', JString ''Upstream provider failed'')]\<rparr>, h)
      | None \<Rightarrow>
          (case ro of
             None \<Rightarrow> (\<lparr>Status = StatusInternalServerError, Header = [], Body = Raw []\<rparr>, h)
           | Some r \<Rightarrow>
               if StatusCode r \<ge> 500 then
                 (\<lparr>Status = StatusBadGateway, Header = [],
                   Body = JSON [(''error'', JString ''Upstream provider error''),
                                (''status'', JInt (StatusCode r))]\<rparr>, h)
               else forward E p start r h))"

definition loop0 :: loop where
  "loop0 = \<lparr>attempt = 0, urlIndex = 0, resp = None, lastErr = None\<rparr>"

definition CreateCompletion :: "env \<Rightarrow> Tenant option \<Rightarrow> request \<Rightarrow> Handler \<Rightarrow> response \<times> Handler" where
  "CreateCompletion E tenantCtx req h =
     (let start = clock h in
      case intake E tenantCtx req of
        Inl r \<Rightarrow> (r, h)
      | Inr p \<Rightarrow>
          (case retry E (baseURLs p) (retryMax p) (backoffMs p) loop0 h of
             (RequestFailed, h1) \<Rightarrow>
               (error_response StatusInternalServerError ''Failed to create upstream request'', h1)
           | (Finished ro eo, h1) \<Rightarrow> respond E p start ro eo h1))"

text \<open>
  Requests of one tenant served by the handler one after the other; each comes with
  the time that passes before it arrives.
\<close>

fun CreateCompletions ::
  "env \<Rightarrow> Tenant \<Rightarrow> (time \<times> request) list \<Rightarrow> Handler \<Rightarrow> response list \<times> Handler" where
  "CreateCompletions E tn [] h = ([], h)"
| "CreateCompletions E tn ((idle, req) # reqs) h =
     (case CreateCompletion E (Some tn) req (h\<lparr>clock := clock h + idle\<rparr>) of
        (r, h1) \<Rightarrow> (case CreateCompletions E tn reqs h1 of (rs, h2) \<Rightarrow> (r # rs, h2)))"

subsection \<open>The chain\<close>

text \<open>
  The stores and the handler of the process, and the chain \<open>main\<close> registers for
  \<open>POST /v1/chat/completions\<close>: authentication, admission, the proxy handler. The
  tracing and the metrics middleware that \<open>main\<close> registers before them only observe
  the request (they never abort and never change the response), and are left out.
\<close>

record gateway =
  tenantStore :: DynamoDBTenantStore
  rateLimits :: MockRateLimitStore
  handler :: Handler

definition serve :: "env \<Rightarrow> request \<Rightarrow> gateway \<Rightarrow> response \<times> gateway" where
  "serve E req g =
     (case AuthMiddleware (\<lambda>s. GetTenant s (clock (handler g))) (tenantStore g) (Authorization req) of
        (Abort r, ts) \<Rightarrow> (r, g\<lparr>tenantStore := ts\<rparr>)
      | (Next tn, ts) \<Rightarrow>
          (case RateLimitMiddleware (rateLimits g) (Some tn) of
             (Abort r, rl) \<Rightarrow> (r, g\<lparr>tenantStore := ts, rateLimits := rl\<rparr>)
           | (Next u, rl) \<Rightarrow>
               (case CreateCompletion E (Some tn) req (handler g) of
                  (r, h) \<Rightarrow> (r, g\<lparr>tenantStore := ts, rateLimits := rl, handler := h\<rparr>))))"

subsection \<open>Concrete inputs\<close>

text \<open>
  Inputs for the closed theorems below: a tenant, two request bodies with what
  \<open>json.Unmarshal\<close> yields for them, the two stream chunks of the repository's
  streaming test with the \<open>delta.content\<close> of their choices, a model with two
  upstream URLs, and an environment around any upstream behaviour \<open>d\<close>.
\<close>

definition example_tenant :: Tenant where
  "example_tenant =
     \<lparr>APIKey = ''valid-key'', TenantID = ''t1'', Name = ''tenant one'', RPMLimit = 10,
      TPMLimit = 100, AllowedModels = [''*''], IsActive = True\<rparr>"

definition example_body :: string where
  \<open>example_body = ''{"model": "gpt-4", "messages": []}''\<close>

definition example_stream_body :: string where
  \<open>example_stream_body = ''{"model": "gpt-4", "messages": [], "stream": true}''\<close>

definition chunk_Hello :: string where
  \<open>chunk_Hello = ''{"choices":[{"delta":{"content":"Hello"}}]}''\<close>

definition chunk_World :: string where
  \<open>chunk_World = ''{"choices":[{"delta":{"content":" World"}}]}''\<close>

definition example_model :: Model where
  "example_model =
     \<lparr>ModelID = ''gpt-4'', ProviderName = ''openai'', BaseURLs = [''http://a'', ''http://b''],
      APIKeyEnv = ''OPENAI_API_KEY''\<rparr>"

definition example_env :: "(nat \<Rightarrow> string \<Rightarrow> time \<times> (string + Response)) \<Rightarrow> env" where
  "example_env d =
     \<lparr>Unmarshal_ChatRequest =
        (\<lambda>b. if b = example_body then Some \<lparr>Model = ''gpt-4'', Messages = [], Stream = False\<rparr>
             else if b = example_stream_body
             then Some \<lparr>Model = ''gpt-4'', Messages = [], Stream = True\<rparr>
             else None),
      Unmarshal_partial =
        (\<lambda>b. if b = chunk_Hello then Some [''Hello'']
             else if b = chunk_World then Some ['' World'']
             else None),
      GetModel = (\<lambda>m. if m = ''gpt-4'' then Inr (Some example_model) else Inr None),
      Getenv = (\<lambda>v. ''sk-upstream''),
      NewRequest_ok = (\<lambda>url. True),
      Do = d\<rparr>"

definition example_request :: "string \<Rightarrow> string \<Rightarrow> string \<Rightarrow> request" where
  "example_request rmax backoff b =
     \<lparr>Authorization = ''Bearer valid-key'', XLLMRetryMax = rmax, XLLMRetryBackoffMs = backoff,
      RequestBody = b, ReadFails = False\<rparr>"

text \<open>An upstream that answers every call at once with the same status and an empty body.\<close>

definition always :: "int \<Rightarrow> nat \<Rightarrow> string \<Rightarrow> time \<times> (string + Response)" where
  "always code n url =
     (0, Inr \<lparr>StatusCode = code, RespHeader = [], BodyBytes = [], ReadAllTime = 0, BodyLines = []\<rparr>)"

text \<open>An upstream that cannot be reached.\<close>

definition unreachable :: "nat \<Rightarrow> string \<Rightarrow> time \<times> (string + Response)" where
  "unreachable n url = (0, Inl ''connection refused'')"

definition new_handler :: Handler where
  "new_handler =
     \<lparr>cb = NewCircuitBreaker 0, wg = [], clock = 0, contacted = [], llmTTFT = [],
      llmTokenUsage = []\<rparr>"

text \<open>A rate-limit store with no counter yet and no forced error.\<close>

definition empty_limits :: MockRateLimitStore where
  "empty_limits = \<lparr>RPM = (\<lambda>t. 0), TPM = (\<lambda>t. 0), Err = None\<rparr>"

definition inactive_tenant :: Tenant where
  "inactive_tenant =
     \<lparr>APIKey = ''inactive-key'', TenantID = ''t2'', Name = ''tenant two'', RPMLimit = 10,
      TPMLimit = 100, AllowedModels = [''*''], IsActive = False\<rparr>"

text \<open>
  A tenant store whose table holds \<open>inactive_tenant\<close> and nothing else, and whose cache
  still holds, until time 100, the record read when the tenant was active.
\<close>

definition stale_store :: DynamoDBTenantStore where
  "stale_store =
     \<lparr>table = (\<lambda>k. if k = ''inactive-key'' then Item inactive_tenant else NoItem),
      cache = [''inactive-key'' \<mapsto>
                 \<lparr>tenant = inactive_tenant\<lparr>IsActive := True\<rparr>, expiresAt = 100\<rparr>]\<rparr>"

text \<open>
  The gateway over that store, at time 0, and the example request sent with a given key.
\<close>

definition stale_gateway :: gateway where
  "stale_gateway = \<lparr>tenantStore = stale_store, rateLimits = empty_limits, handler = new_handler\<rparr>"

definition request_with_key :: "string \<Rightarrow> request" where
  "request_with_key k = (example_request [] [] example_body)\<lparr>Authorization := ''Bearer '' @ k\<rparr>"

text \<open>Whether the cache answers for a key at a time.\<close>

definition cached :: "DynamoDBTenantStore \<Rightarrow> time \<Rightarrow> string \<Rightarrow> bool" where
  "cached s now k = (case cache s k of Some entry \<Rightarrow> now < expiresAt entry | None \<Rightarrow> False)"

definition unset_tenant :: Tenant where
  "unset_tenant =
     \<lparr>APIKey = ''valid-key'', TenantID = ''t3'', Name = ''tenant three'', RPMLimit = 0,
      TPMLimit = 0, AllowedModels = [], IsActive = True\<rparr>"

definition unset_gateway :: gateway where
  "unset_gateway =
     \<lparr>tenantStore =
        \<lparr>table = (\<lambda>k. if k = ''valid-key'' then Item unset_tenant else NoItem),
         cache = Map.empty\<rparr>,
      rateLimits = empty_limits, handler = new_handler\<rparr>"

text \<open>
  What the loop and the breaker leave alone: the metrics and the wait group; and the
  clock does not go back.
\<close>

definition frame :: "Handler \<Rightarrow> Handler \<Rightarrow> bool" where
  "frame h h' =
     (llmTTFT h' = llmTTFT h \<and> wg h' = wg h \<and> llmTokenUsage h' = llmTokenUsage h \<and>
      clock h \<le> clock h')"

text \<open>The payload of a line that begins with \<open>data: \<close>: the line without these six bytes.\<close>

definition payload :: "string \<Rightarrow> string" where
  "payload line = drop 6 line"

text \<open>
  The output tokens of a stream in the words of the specification: the sum, over the
  forwarded lines that begin with \<open>data: \<close>, whose payload is not \<open>[DONE]\<close> and whose
  payload parses with a non-empty \<open>choices\<close>, of the length of
  \<open>choices[0].delta.content\<close> divided by 4, rounded down.
\<close>

definition spec_output_tokens :: "env \<Rightarrow> string list \<Rightarrow> int" where
  "spec_output_tokens E forwarded =
     (\<Sum>line \<leftarrow> filter (\<lambda>line. HasPrefix line ''data: '' \<and> payload line \<noteq> ''[DONE]'' \<and>
                            (case Unmarshal_partial E (payload line) of
                               Some choices \<Rightarrow> choices \<noteq> []
                             | None \<Rightarrow> False)) forwarded.
        int (length (hd (the (Unmarshal_partial E (payload line))))) div 4)"

definition test_stream :: "(time \<times> string) list" where
  "test_stream =
     [(10 * Millisecond, ''data: '' @ chunk_Hello), (0, []),
      (10 * Millisecond, ''data: '' @ chunk_World), (0, []),
      (10 * Millisecond, ''data: [DONE]''), (0, [])]"

text \<open>
  An upstream that answers after 20 ms with the stream of the repository's streaming
  test; a tenant allowed one model only; a usage sink that is empty and does not fail;
  and the plans \<open>intake\<close> makes of the example requests.
\<close>

definition streaming_upstream :: "nat \<Rightarrow> string \<Rightarrow> time \<times> (string + Response)" where
  "streaming_upstream n url =
     (20 * Millisecond,
      Inr \<lparr>StatusCode = 200, RespHeader = [(''Content-Type'', [''text/event-stream''])],
           BodyBytes = concat (map (\<lambda>x. snd x @ [CHR 0x0A]) test_stream), ReadAllTime = 0,
           BodyLines = test_stream\<rparr>)"

definition claude_tenant :: Tenant where
  "claude_tenant = example_tenant\<lparr>AllowedModels := [''claude-2'']\<rparr>"

definition empty_sink :: UsageStore where
  "empty_sink = \<lparr>Records = [], Failures = []\<rparr>"

definition example_plan :: "string \<Rightarrow> string \<Rightarrow> plan" where
  "example_plan rmax backoff =
     \<lparr>caller = example_tenant, bodyBytes = example_body,
      chatReq = \<lparr>Model = ''gpt-4'', Messages = [], Stream = False\<rparr>,
      baseURLs = [''http://a'', ''http://b''], apiKey = ''sk-upstream'',
      retryMax = retryMax_of (example_request rmax backoff example_body),
      backoffMs = backoffMs_of (example_request rmax backoff example_body)\<rparr>"

definition example_stream_plan :: plan where
  "example_stream_plan =
     \<lparr>caller = example_tenant, bodyBytes = example_stream_body,
      chatReq = \<lparr>Model = ''gpt-4'', Messages = [], Stream = True\<rparr>,
      baseURLs = [''http://a'', ''http://b''], apiKey = ''sk-upstream'',
      retryMax = 3, backoffMs = 100\<rparr>"

text \<open>The counts of a generation in which \<open>k\<close> calls were made and all of them failed.\<close>

definition failed :: "nat \<Rightarrow> Counts" where
  "failed k =
     \<lparr>Requests = k, TotalSuccesses = 0, TotalFailures = k, ConsecutiveSuccesses = 0,
      ConsecutiveFailures = k\<rparr>"

text \<open>
  Ten requests one second apart, each with \<open>X-LLM-Retry-Max: 0\<close> and so with one
  upstream call, and the handler a new one is left in after them.
\<close>

definition request_once :: request where
  "request_once = example_request ''0'' [] example_body"

definition ten_requests :: "(time \<times> request) list" where
  "ten_requests = replicate 10 (Second, request_once)"

definition after_ten :: "(nat \<Rightarrow> string \<Rightarrow> time \<times> (string + Response)) \<Rightarrow> Handler" where
  "after_ten d = snd (CreateCompletions (example_env d) example_tenant ten_requests new_handler)"

section \<open>Properties\<close>

subsection \<open>The retry policy\<close>

lemma retryMax_of_Atoi:
  "Atoi (XLLMRetryMax req) = Some v \<Longrightarrow>
     retryMax_of req = (if 0 \<le> v \<and> v \<le> 10 then v else 3)"
  by (auto simp: retryMax_of_def Atoi_def Let_def split: list.splits)

lemma backoffMs_of_Atoi:
  "Atoi (XLLMRetryBackoffMs req) = Some v \<Longrightarrow>
     backoffMs_of req = (if 0 \<le> v then v else 100)"
  by (auto simp: backoffMs_of_def Atoi_def Let_def split: list.splits)

lemma intake_policy:
  "intake E tenantCtx req = Inr p \<Longrightarrow>
     retryMax p = retryMax_of req \<and> backoffMs p = backoffMs_of req"
  by (auto simp: intake_def split: option.splits if_splits sum.splits)

lemma Atoi_11: "Atoi ''11'' = Some 11"
  by (simp add: Atoi_def digit_def)

lemma Atoi_minus_5: "Atoi ''-5'' = Some (- 5)"
  by (simp add: Atoi_def digit_def)

lemma example_intake:
  "intake (example_env d) (Some example_tenant) (example_request rmax backoff example_body) =
     Inr \<lparr>caller = example_tenant, bodyBytes = example_body,
          chatReq = \<lparr>Model = ''gpt-4'', Messages = [], Stream = False\<rparr>,
          baseURLs = [''http://a'', ''http://b''], apiKey = ''sk-upstream'',
          retryMax = retryMax_of (example_request rmax backoff example_body),
          backoffMs = backoffMs_of (example_request rmax backoff example_body)\<rparr>"
  by (simp add: intake_def example_env_def example_request_def example_body_def
      example_tenant_def example_model_def allowed_def)

lemma example_retryMax_of: "retryMax_of (example_request ''11'' backoff b) = 3"
  by (simp add: retryMax_of_def example_request_def Atoi_11)

lemma example_backoffMs_of: "backoffMs_of (example_request rmax ''-5'' b) = 100"
  by (simp add: backoffMs_of_def example_request_def Atoi_minus_5)

text \<open>
  C3, as stated, fails: a header \<open>X-LLM-Retry-Max: 11\<close> is an integer above 10, and the
  retry maximum the loop gets is the default 3, not 10; a header
  \<open>X-LLM-Retry-Backoff-Ms: -5\<close> gives the default 100, not 0.
\<close>

theorem retry_headers_not_clipped:
  "Atoi ''11'' = Some 11 \<and> Atoi ''-5'' = Some (- 5) \<and>
   (\<exists>p. intake (example_env (always 200)) (Some example_tenant)
           (example_request ''11'' ''-5'' example_body) = Inr p \<and>
        retryMax p = 3 \<and> retryMax p \<noteq> max 0 (min 10 11) \<and>
        backoffMs p = 100 \<and> backoffMs p \<noteq> max 0 (- 5))"
  by (simp add: example_intake Atoi_11 Atoi_minus_5 example_retryMax_of example_backoffMs_of)

text \<open>
  C3, amended: for a request that carries \<open>X-LLM-Retry-Max\<close> with the integer value
  \<open>v\<close>, the retry maximum the failover loop uses is \<open>v\<close> when \<open>0 \<le> v \<le> 10\<close> and
  the default 3 otherwise (a value out of range is ignored, not clipped); with
  \<open>X-LLM-Retry-Backoff-Ms\<close> of integer value \<open>w\<close> the backoff is \<open>w\<close> when
  \<open>0 \<le> w\<close> and the default 100 otherwise.
\<close>

theorem retry_headers_in_range_or_default:
  assumes "intake E tenantCtx req = Inr p"
  shows "(Atoi (XLLMRetryMax req) = Some v \<longrightarrow>
            retryMax p = (if 0 \<le> v \<and> v \<le> 10 then v else 3)) \<and>
         (Atoi (XLLMRetryBackoffMs req) = Some w \<longrightarrow>
            backoffMs p = (if 0 \<le> w then w else 100)) \<and>
         CreateCompletion E tenantCtx req h =
           (case retry E (baseURLs p) (retryMax p) (backoffMs p) loop0 h of
              (RequestFailed, h1) \<Rightarrow>
                (error_response StatusInternalServerError ''Failed to create upstream request'', h1)
            | (Finished ro eo, h1) \<Rightarrow> respond E p (clock h) ro eo h1)"
  using assms intake_policy [OF assms]
  by (simp add: CreateCompletion_def retryMax_of_Atoi backoffMs_of_Atoi)

theorem retry_headers_in_range_or_default_witness:
  "retryMax_of (example_request ''11'' ''-5'' example_body) = 3 \<and>
   backoffMs_of (example_request ''11'' ''-5'' example_body) = 100"
proof -
  note t = retry_headers_in_range_or_default
    [where E = "example_env (always 200)" and tenantCtx = "Some example_tenant"
       and req = "example_request ''11'' ''-5'' example_body" and v = 11 and w = "- 5"
       and h = new_handler, OF example_intake]
  have "XLLMRetryMax (example_request ''11'' ''-5'' example_body) = ''11''"
    and "XLLMRetryBackoffMs (example_request ''11'' ''-5'' example_body) = ''-5''"
    by (simp_all add: example_request_def)
  with t show ?thesis
    by (simp add: Atoi_11 Atoi_minus_5)
qed

declare retry.simps [simp del]

subsection \<open>Admission\<close>

lemma wrap64_id: "- (2 ^ 63) \<le> x \<Longrightarrow> x < 2 ^ 63 \<Longrightarrow> wrap64 x = x"
  by (simp add: wrap64_def)

lemma IncrementRPM_ok:
  "Err m = None \<Longrightarrow>
     IncrementRPM m tid =
       (Inr (wrap64 (RPM m tid + 1)), m\<lparr>RPM := (RPM m)(tid := wrap64 (RPM m tid + 1))\<rparr>)"
  by (simp add: IncrementRPM_def Let_def)

lemma GetTPM_ok: "Err m = None \<Longrightarrow> GetTPM m tid = (Inr (TPM m tid), m)"
  by (simp add: GetTPM_def)

lemma RateLimitMiddleware_ok:
  assumes "Err m = None"
  shows "RateLimitMiddleware m (Some tn) =
     (if wrap64 (RPM m (TenantID tn) + 1) > RPMLimit tn
      then Abort (rate_limit_response ''Rate limit exceeded (RPM)'' (RPMLimit tn))
      else if TPM m (TenantID tn) > TPMLimit tn
      then Abort (rate_limit_response ''Rate limit exceeded (TPM)'' (TPMLimit tn))
      else Next (),
      m\<lparr>RPM := (RPM m)(TenantID tn := wrap64 (RPM m (TenantID tn) + 1))\<rparr>)"
  using assms by (simp add: RateLimitMiddleware_def IncrementRPM_ok GetTPM_ok)

lemma fst_admit_all_Suc:
  "fst (admit_all (Suc n) tn m) =
     fst (RateLimitMiddleware m (Some tn)) #
     fst (admit_all n tn (snd (RateLimitMiddleware m (Some tn))))"
  by (simp split: prod.splits)

lemma map_upt_shift: "map f [0..<Suc n] = f 0 # map (\<lambda>k. f (Suc k)) [0..<n]"
proof -
  have "[0..<Suc n] = 0 # map Suc [0..<n]"
    by (simp add: upt_conv_Cons map_Suc_upt del: upt_Suc)
  then show ?thesis
    by (simp add: comp_def del: upt_Suc)
qed

lemma admit_all_from:
  assumes "Err m = None" "0 \<le> RPM m (TenantID tn)" "RPM m (TenantID tn) + int n < 2 ^ 63"
    "TPM m (TenantID tn) \<le> TPMLimit tn"
  shows "fst (admit_all n tn m) =
     map (\<lambda>k. if RPM m (TenantID tn) + 1 + int k \<le> RPMLimit tn then Next ()
               else Abort (rate_limit_response ''Rate limit exceeded (RPM)'' (RPMLimit tn)))
       [0..<n]"
  using assms
proof (induction n arbitrary: m)
  case 0
  then show ?case by simp
next
  case (Suc n)
  let ?c = "RPM m (TenantID tn)"
  let ?m1 = "m\<lparr>RPM := (RPM m)(TenantID tn := ?c + 1)\<rparr>"
  let ?rej = "Abort (rate_limit_response ''Rate limit exceeded (RPM)'' (RPMLimit tn)) :: unit mw"
  have w: "wrap64 (?c + 1) = ?c + 1"
    using Suc.prems by (intro wrap64_id) auto
  have step: "RateLimitMiddleware m (Some tn) =
      (if ?c + 1 \<le> RPMLimit tn then Next () else ?rej, ?m1)"
    using Suc.prems by (simp add: RateLimitMiddleware_ok w)
  have ih: "fst (admit_all n tn ?m1) =
     map (\<lambda>k. if ?c + 1 + int (Suc k) \<le> RPMLimit tn then Next () else ?rej) [0..<n]"
  proof -
    have "fst (admit_all n tn ?m1) =
       map (\<lambda>k. if RPM ?m1 (TenantID tn) + 1 + int k \<le> RPMLimit tn then Next () else ?rej)
         [0..<n]"
      by (rule Suc.IH) (use Suc.prems in auto)
    then show ?thesis
      by (simp add: algebra_simps)
  qed
  show ?case
    by (subst fst_admit_all_Suc, subst map_upt_shift) (simp add: step ih)
qed


text \<open>
  C5: admission increments the RPM counter before it checks it, so a request is counted
  also when it is rejected; the request is answered 429 with \<open>Retry-After: 60\<close> and the
  body \<open>{"error":"Rate limit exceeded (RPM)","limit":rpm_limit}\<close> exactly when the
  count after the increment is above \<open>rpm_limit\<close> (equality is admitted; with the store
  answering and the TPM counter within its limit the request is then handed on); and
  from an empty counter, of \<open>n\<close> requests in a row the \<open>k\<close>-th is admitted exactly
  when \<open>k \<le> rpm_limit\<close>, so the first \<open>rpm_limit\<close> are admitted and the next is
  answered 429. The counter is an \<open>int64\<close> below its maximum.
\<close>

theorem rpm_admission:
  assumes "Err m = None"
    and "- (2 ^ 63) \<le> RPM m (TenantID tn)" and "RPM m (TenantID tn) < 2 ^ 63 - 1"
  shows "RPM (snd (RateLimitMiddleware m (Some tn))) (TenantID tn) = RPM m (TenantID tn) + 1 \<and>
    (RPMLimit tn < RPM m (TenantID tn) + 1) =
      (fst (RateLimitMiddleware m (Some tn)) =
         Abort \<lparr>Status = 429, Header = [(''Retry-After'', ''60'')],
                Body = JSON [(''error'', JString ''Rate limit exceeded (RPM)''),
                             (''limit'', JInt (RPMLimit tn))]\<rparr>) \<and>
    (fst (RateLimitMiddleware m (Some tn)) = Next ()) =
      (RPM m (TenantID tn) + 1 \<le> RPMLimit tn \<and> TPM m (TenantID tn) \<le> TPMLimit tn) \<and>
    (RPM m (TenantID tn) = 0 \<and> TPM m (TenantID tn) \<le> TPMLimit tn \<and> int n < 2 ^ 63 \<longrightarrow>
       fst (admit_all n tn m) =
         map (\<lambda>k. if int k + 1 \<le> RPMLimit tn then Next ()
                   else Abort (rate_limit_response ''Rate limit exceeded (RPM)'' (RPMLimit tn)))
           [0..<n])"
proof -
  have w: "wrap64 (RPM m (TenantID tn) + 1) = RPM m (TenantID tn) + 1"
    using assms by (intro wrap64_id) auto
  have step: "RateLimitMiddleware m (Some tn) =
     (if RPM m (TenantID tn) + 1 > RPMLimit tn
      then Abort (rate_limit_response ''Rate limit exceeded (RPM)'' (RPMLimit tn))
      else if TPM m (TenantID tn) > TPMLimit tn
      then Abort (rate_limit_response ''Rate limit exceeded (TPM)'' (TPMLimit tn))
      else Next (),
      m\<lparr>RPM := (RPM m)(TenantID tn := RPM m (TenantID tn) + 1)\<rparr>)"
    using assms(1) by (simp add: RateLimitMiddleware_ok w)
  have counted: "RPM (snd (RateLimitMiddleware m (Some tn))) (TenantID tn) = RPM m (TenantID tn) + 1"
    by (simp add: step)
  have rejected: "(RPMLimit tn < RPM m (TenantID tn) + 1) =
      (fst (RateLimitMiddleware m (Some tn)) =
         Abort \<lparr>Status = 429, Header = [(''Retry-After'', ''60'')],
                Body = JSON [(''error'', JString ''Rate limit exceeded (RPM)''),
                             (''limit'', JInt (RPMLimit tn))]\<rparr>)"
    by (simp add: step rate_limit_response_def StatusTooManyRequests_def)
  have admitted: "(fst (RateLimitMiddleware m (Some tn)) = Next ()) =
      (RPM m (TenantID tn) + 1 \<le> RPMLimit tn \<and> TPM m (TenantID tn) \<le> TPMLimit tn)"
    by (auto simp: step)
  have run: "fst (admit_all n tn m) =
         map (\<lambda>k. if int k + 1 \<le> RPMLimit tn then Next ()
                   else Abort (rate_limit_response ''Rate limit exceeded (RPM)'' (RPMLimit tn)))
           [0..<n]"
    if "RPM m (TenantID tn) = 0" "TPM m (TenantID tn) \<le> TPMLimit tn" "int n < 2 ^ 63"
    using admit_all_from [of m tn n] assms(1) that by (simp add: add.commute)
  show ?thesis
    using counted rejected admitted run by blast
qed

theorem rpm_admission_witness:
  "fst (admit_all 11 example_tenant empty_limits) =
     replicate 10 (Next ()) @
     [Abort \<lparr>Status = 429, Header = [(''Retry-After'', ''60'')],
             Body = JSON [(''error'', JString ''Rate limit exceeded (RPM)''),
                          (''limit'', JInt 10)]\<rparr>]"
proof -
  have "Err empty_limits = None" "- (2 ^ 63) \<le> RPM empty_limits (TenantID example_tenant)"
    "RPM empty_limits (TenantID example_tenant) < 2 ^ 63 - 1"
    by (simp_all add: empty_limits_def)
  from rpm_admission [OF this, of 11]
  have "fst (admit_all 11 example_tenant empty_limits) =
         map (\<lambda>k. if int k + 1 \<le> RPMLimit example_tenant then Next ()
                   else Abort (rate_limit_response ''Rate limit exceeded (RPM)''
                                 (RPMLimit example_tenant)))
           [0..<11]"
    by (simp add: empty_limits_def example_tenant_def)
  then show ?thesis
    by (simp add: example_tenant_def rate_limit_response_def StatusTooManyRequests_def
        upt_rec numeral_eq_Suc)
qed

subsection \<open>Authentication and the tenant store\<close>

lemma Split_Bearer: "Split ''Bearer inactive-key'' CHR '' '' = [''Bearer'', ''inactive-key'']"
  by simp

lemma Split_Bearer_unknown: "Split ''Bearer unknown-key'' CHR '' '' = [''Bearer'', ''unknown-key'']"
  by simp

lemma AuthMiddleware_Bearer:
  assumes "Split hdr CHR '' '' = [''Bearer'', k]"
  shows "AuthMiddleware g s hdr =
     (case g s k of
        (Inl err, s') \<Rightarrow> (Abort (error_response StatusUnauthorized ''Invalid API Key''), s')
      | (Inr None, s') \<Rightarrow> (Abort (error_response StatusUnauthorized ''Invalid API Key''), s')
      | (Inr (Some t), s') \<Rightarrow> (Next t, s'))"
proof -
  have "hdr \<noteq> []" using assms by auto
  then show ?thesis
    using assms by (simp add: AuthMiddleware_def)
qed

lemma GetTenant_uncached: "\<not> cached s now k \<Longrightarrow> GetTenant s now k = fetchTenant s now k"
  by (simp add: GetTenant_def cached_def split: option.splits)

lemma AuthMiddleware_Abort:
  "AuthMiddleware g s hdr = (Abort r, s') \<Longrightarrow> \<exists>msg. r = error_response StatusUnauthorized msg"
  by (auto simp: AuthMiddleware_def Let_def split: if_splits prod.splits sum.splits option.splits)

text \<open>
  C8, amended: every response with which \<open>AuthMiddleware\<close> aborts has status 401 and a
  JSON body \<open>{"error": msg}\<close>, and the chain stops there (\<open>serve\<close> returns it and
  runs nothing else); it aborts for a missing header, for a header that is not exactly
  two space-separated parts the first of which is \<open>Bearer\<close>, for a store error and
  for an unknown key. A key that is unknown and the key of an inactive tenant get the
  same response, provided neither lookup is answered from an unexpired cache entry
  (with \<open>MockTenantStore\<close>, which has no cache, always).
\<close>

theorem auth_failures_401:
  shows "(\<forall>r s'. AuthMiddleware g s hdr = (Abort r, s') \<longrightarrow>
            Status r = 401 \<and> (\<exists>msg. Body r = JSON [(''error'', JString msg)])) \<and>
    (\<forall>r ts'. AuthMiddleware (\<lambda>s. GetTenant s (clock (handler gw))) (tenantStore gw)
               (Authorization req) = (Abort r, ts') \<longrightarrow>
            serve E req gw = (r, gw\<lparr>tenantStore := ts'\<rparr>)) \<and>
    (hdr = [] \<longrightarrow> (\<exists>r. AuthMiddleware g s hdr = (Abort r, s))) \<and>
    (length (Split hdr CHR '' '') \<noteq> 2 \<or> Split hdr CHR '' '' ! 0 \<noteq> ''Bearer'' \<longrightarrow>
       (\<exists>r. AuthMiddleware g s hdr = (Abort r, s))) \<and>
    (Split hdr CHR '' '' = [''Bearer'', k] \<and> fst (g s k) = Inl err \<longrightarrow>
       (\<exists>r. fst (AuthMiddleware g s hdr) = Abort r)) \<and>
    (Split hdr CHR '' '' = [''Bearer'', k] \<and> fst (g s k) = Inr None \<longrightarrow>
       (\<exists>r. fst (AuthMiddleware g s hdr) = Abort r)) \<and>
    (Split hdr1 CHR '' '' = [''Bearer'', k1] \<and> Split hdr2 CHR '' '' = [''Bearer'', k2] \<and>
     table ts k1 = NoItem \<and> table ts k2 = Item t \<and> \<not> IsActive t \<and>
     \<not> cached ts now k1 \<and> \<not> cached ts now k2 \<longrightarrow>
       fst (AuthMiddleware (\<lambda>s. GetTenant s now) ts hdr1) =
         Abort (error_response StatusUnauthorized ''Invalid API Key'') \<and>
       fst (AuthMiddleware (\<lambda>s. GetTenant s now) ts hdr2) =
         fst (AuthMiddleware (\<lambda>s. GetTenant s now) ts hdr1)) \<and>
    (Split hdr1 CHR '' '' = [''Bearer'', k1] \<and> Split hdr2 CHR '' '' = [''Bearer'', k2] \<and>
     m k1 = None \<and> m k2 = Some t \<and> \<not> IsActive t \<longrightarrow>
       fst (AuthMiddleware MockGetTenant m hdr2) = fst (AuthMiddleware MockGetTenant m hdr1))"
proof -
  have a: "Status r = 401 \<and> (\<exists>msg. Body r = JSON [(''error'', JString msg)])"
    if "AuthMiddleware g s hdr = (Abort r, s')" for r s'
    using AuthMiddleware_Abort [OF that]
    by (auto simp: error_response_def StatusUnauthorized_def)
  have b: "serve E req gw = (r, gw\<lparr>tenantStore := ts'\<rparr>)"
    if "AuthMiddleware (\<lambda>s. GetTenant s (clock (handler gw))) (tenantStore gw)
          (Authorization req) = (Abort r, ts')" for r ts'
    using that by (simp add: serve_def)
  have c: "\<exists>r. AuthMiddleware g s hdr = (Abort r, s)" if "hdr = []"
    using that by (simp add: AuthMiddleware_def)
  have d: "\<exists>r. AuthMiddleware g s hdr = (Abort r, s)"
    if "length (Split hdr CHR '' '') \<noteq> 2 \<or> Split hdr CHR '' '' ! 0 \<noteq> ''Bearer''"
    using that by (auto simp: AuthMiddleware_def Let_def)
  have e: "\<exists>r. fst (AuthMiddleware g s hdr) = Abort r"
    if "Split hdr CHR '' '' = [''Bearer'', k]" "fst (g s k) = Inl err"
    using that by (cases "g s k") (simp add: AuthMiddleware_Bearer)
  have f: "\<exists>r. fst (AuthMiddleware g s hdr) = Abort r"
    if "Split hdr CHR '' '' = [''Bearer'', k]" "fst (g s k) = Inr None"
    using that by (cases "g s k") (simp add: AuthMiddleware_Bearer)
  have i: "fst (AuthMiddleware (\<lambda>s. GetTenant s now) ts hdr1) =
         Abort (error_response StatusUnauthorized ''Invalid API Key'') \<and>
       fst (AuthMiddleware (\<lambda>s. GetTenant s now) ts hdr2) =
         fst (AuthMiddleware (\<lambda>s. GetTenant s now) ts hdr1)"
    if "Split hdr1 CHR '' '' = [''Bearer'', k1]" "Split hdr2 CHR '' '' = [''Bearer'', k2]"
      "table ts k1 = NoItem" "table ts k2 = Item t" "\<not> IsActive t"
      "\<not> cached ts now k1" "\<not> cached ts now k2"
    using that by (simp add: AuthMiddleware_Bearer GetTenant_uncached fetchTenant_def)
  have j: "fst (AuthMiddleware MockGetTenant m hdr2) = fst (AuthMiddleware MockGetTenant m hdr1)"
    if "Split hdr1 CHR '' '' = [''Bearer'', k1]" "Split hdr2 CHR '' '' = [''Bearer'', k2]"
      "m k1 = None" "m k2 = Some t" "\<not> IsActive t"
    using that by (simp add: AuthMiddleware_Bearer MockGetTenant_def)
  show ?thesis
    using a b c d e f i j by blast
qed

theorem auth_failures_401_witness:
  "fst (AuthMiddleware (\<lambda>s. GetTenant s 50) (stale_store\<lparr>cache := Map.empty\<rparr>)
          ''Bearer unknown-key'') =
     Abort (error_response StatusUnauthorized ''Invalid API Key'') \<and>
   fst (AuthMiddleware (\<lambda>s. GetTenant s 50) (stale_store\<lparr>cache := Map.empty\<rparr>)
          ''Bearer inactive-key'') =
     Abort (error_response StatusUnauthorized ''Invalid API Key'')"
proof -
  let ?ts = "stale_store\<lparr>cache := Map.empty\<rparr>"
  have h: "Split ''Bearer unknown-key'' CHR '' '' = [''Bearer'', ''unknown-key''] \<and>
      Split ''Bearer inactive-key'' CHR '' '' = [''Bearer'', ''inactive-key''] \<and>
      table ?ts ''unknown-key'' = NoItem \<and> table ?ts ''inactive-key'' = Item inactive_tenant \<and>
      \<not> IsActive inactive_tenant \<and> \<not> cached ?ts 50 ''unknown-key'' \<and>
      \<not> cached ?ts 50 ''inactive-key''"
    by (simp add: stale_store_def inactive_tenant_def cached_def)
  note t = auth_failures_401
    [where g = "\<lambda>s. GetTenant s 50" and s = ?ts and hdr = "[]" and gw = unset_gateway
       and ?hdr1.0 = "''Bearer unknown-key''" and ?hdr2.0 = "''Bearer inactive-key''"
       and ?k1.0 = "''unknown-key''" and ?k2.0 = "''inactive-key''" and ts = ?ts
       and t = inactive_tenant and now = 50]
  from h have c: "fst (AuthMiddleware (\<lambda>s. GetTenant s 50) ?ts ''Bearer unknown-key'') =
         Abort (error_response StatusUnauthorized ''Invalid API Key'') \<and>
       fst (AuthMiddleware (\<lambda>s. GetTenant s 50) ?ts ''Bearer inactive-key'') =
         fst (AuthMiddleware (\<lambda>s. GetTenant s 50) ?ts ''Bearer unknown-key'')"
    by (intro t [THEN conjunct2, THEN conjunct2, THEN conjunct2, THEN conjunct2, THEN conjunct2,
          THEN conjunct2, THEN conjunct1, rule_format]) 
  then show ?thesis
    by simp
qed

subsection \<open>Defaults at read time\<close>

lemma Split_Bearer_valid: "Split ''Bearer valid-key'' CHR '' '' = [''Bearer'', ''valid-key'']"
  by simp

text \<open>
  C2: the code does not do what the claim says. For a stored record whose limits and
  allowed models are unset, \<open>GetTenant\<close> fills in \<open>rpm_limit = 100\<close> and
  \<open>tpm_limit = 100000\<close> but leaves the allowed models empty, so the tenant it hands
  to the pipeline is allowed no model and the request is answered 403.
\<close>

theorem unset_allowed_models_forbid_every_model:
  "fst (GetTenant (tenantStore unset_gateway) 0 ''valid-key'') =
     Inr (Some (unset_tenant\<lparr>RPMLimit := 100, TPMLimit := 100000\<rparr>)) \<and>
   AllowedModels (unset_tenant\<lparr>RPMLimit := 100, TPMLimit := 100000\<rparr>) = [] \<and>
   (\<forall>m. \<not> allowed (unset_tenant\<lparr>RPMLimit := 100, TPMLimit := 100000\<rparr>) m) \<and>
   fst (serve (example_env (always 200)) (example_request [] [] example_body) unset_gateway) =
     error_response StatusForbidden ''Model not allowed for this tenant''"
proof -
  have get: "GetTenant (tenantStore unset_gateway) 0 ''valid-key'' =
      (Inr (Some (unset_tenant\<lparr>RPMLimit := 100, TPMLimit := 100000\<rparr>)),
       (tenantStore unset_gateway)
         \<lparr>cache := [''valid-key'' \<mapsto>
            \<lparr>tenant = unset_tenant\<lparr>RPMLimit := 100, TPMLimit := 100000\<rparr>,
             expiresAt = 60 * Minute\<rparr>]\<rparr>)"
    by (simp add: GetTenant_def fetchTenant_def unset_gateway_def unset_tenant_def Let_def)
  have none: "\<not> allowed (unset_tenant\<lparr>RPMLimit := 100, TPMLimit := 100000\<rparr>) m" for m
    by (simp add: allowed_def unset_tenant_def)
  have auth: "AuthMiddleware (\<lambda>s. GetTenant s (clock (handler unset_gateway)))
       (tenantStore unset_gateway) (Authorization (example_request [] [] example_body)) =
     (Next (unset_tenant\<lparr>RPMLimit := 100, TPMLimit := 100000\<rparr>),
       (tenantStore unset_gateway)
         \<lparr>cache := [''valid-key'' \<mapsto>
            \<lparr>tenant = unset_tenant\<lparr>RPMLimit := 100, TPMLimit := 100000\<rparr>,
             expiresAt = 60 * Minute\<rparr>]\<rparr>)"
  proof -
    have "clock (handler unset_gateway) = 0"
      by (simp add: unset_gateway_def new_handler_def)
    moreover have "Authorization (example_request [] [] example_body) = ''Bearer valid-key''"
      by (simp add: example_request_def)
    ultimately show ?thesis
      by (simp add: AuthMiddleware_Bearer [OF Split_Bearer_valid] get)
  qed
  have admit: "fst (RateLimitMiddleware (rateLimits unset_gateway)
       (Some (unset_tenant\<lparr>RPMLimit := 100, TPMLimit := 100000\<rparr>))) = Next ()"
    by (simp add: RateLimitMiddleware_def IncrementRPM_def GetTPM_def unset_gateway_def
        empty_limits_def unset_tenant_def wrap64_def)
  have intake: "intake (example_env (always 200))
       (Some (unset_tenant\<lparr>RPMLimit := 100, TPMLimit := 100000\<rparr>))
       (example_request [] [] example_body) =
     Inl (error_response StatusForbidden ''Model not allowed for this tenant'')"
    by (simp add: intake_def example_env_def example_request_def example_body_def none)
  have "fst (serve (example_env (always 200)) (example_request [] [] example_body) unset_gateway) =
     error_response StatusForbidden ''Model not allowed for this tenant''"
  proof -
    obtain rl where "RateLimitMiddleware (rateLimits unset_gateway)
        (Some (unset_tenant\<lparr>RPMLimit := 100, TPMLimit := 100000\<rparr>)) = (Next (), rl)"
      using admit by (metis prod.collapse)
    then show ?thesis
      by (simp add: serve_def auth CreateCompletion_def intake)
  qed
  with get none show ?thesis
    by (simp add: unset_tenant_def)
qed

subsection \<open>The retry loop, step by step\<close>

lemma frame_refl: "frame h h"
  by (simp add: frame_def)

lemma frame_trans: "frame h h1 \<Longrightarrow> frame h1 h2 \<Longrightarrow> frame h h2"
  by (simp add: frame_def)

lemma Execute_frame: "Execute E url h = (res, h1) \<Longrightarrow> frame h h1"
  by (auto simp: Execute_def Let_def frame_def split: prod.splits sum.splits)

lemma failure_handling_frame: "failure_handling rm bo l h = (l2, h2) \<Longrightarrow> frame h h2"
  by (auto simp: failure_handling_def Sleep_def Let_def frame_def split: if_splits)

lemma retry_done:
  "\<not> attempt l \<le> rm \<Longrightarrow> retry E urls rm bo l h = (Finished (resp l) (lastErr l), h)"
  by (subst retry.simps) simp

lemma retry_bad_url:
  "attempt l \<le> rm \<Longrightarrow> \<not> NewRequest_ok E (urls ! (urlIndex l mod length urls)) \<Longrightarrow>
     retry E urls rm bo l h = (RequestFailed, h)"
  by (subst retry.simps) simp

lemma retry_stop:
  "attempt l \<le> rm \<Longrightarrow> NewRequest_ok E (urls ! (urlIndex l mod length urls)) \<Longrightarrow>
   Execute E (urls ! (urlIndex l mod length urls)) h = (res, h1) \<Longrightarrow>
   res = Inl ErrOpenState \<or> succeeded (record_result res l) \<Longrightarrow>
     retry E urls rm bo l h =
       (Finished (resp (record_result res l)) (lastErr (record_result res l)), h1)"
  by (subst retry.simps) (auto simp: Let_def)

lemma retry_again:
  "attempt l \<le> rm \<Longrightarrow> NewRequest_ok E (urls ! (urlIndex l mod length urls)) \<Longrightarrow>
   Execute E (urls ! (urlIndex l mod length urls)) h = (res, h1) \<Longrightarrow>
   res \<noteq> Inl ErrOpenState \<Longrightarrow> \<not> succeeded (record_result res l) \<Longrightarrow>
   failure_handling rm bo (record_result res l) h1 = (l2, h2) \<Longrightarrow>
     retry E urls rm bo l h = retry E urls rm bo l2 h2"
  by (subst retry.simps) (simp add: Let_def)

lemma retry_frame: "retry E urls rm bo l h = (out, h') \<Longrightarrow> frame h h'"
proof (induction E urls rm bo l h arbitrary: out h' rule: retry.induct)
  case (1 E urls rm bo l h)
  show ?case
  proof (cases "attempt l \<le> rm \<and> NewRequest_ok E (urls ! (urlIndex l mod length urls))")
    case False
    then have "h' = h"
      using "1.prems" retry_done [of l rm E urls bo h] retry_bad_url [of l rm E urls bo h]
      by auto
    then show ?thesis
      by (simp add: frame_refl)
  next
    case True
    obtain res h1 where ex: "Execute E (urls ! (urlIndex l mod length urls)) h = (res, h1)"
      by (cases "Execute E (urls ! (urlIndex l mod length urls)) h")
    have f1: "frame h h1"
      by (rule Execute_frame [OF ex])
    show ?thesis
    proof (cases "res = Inl ErrOpenState \<or> succeeded (record_result res l)")
      case stop: True
      then have "h' = h1"
        using "1.prems" True retry_stop [OF _ _ ex stop, of rm bo] by simp
      then show ?thesis using f1 by simp
    next
      case go: False
      obtain l2 h2 where fh: "failure_handling rm bo (record_result res l) h1 = (l2, h2)"
        by (cases "failure_handling rm bo (record_result res l) h1")
      have f2: "frame h1 h2"
        by (rule failure_handling_frame [OF fh])
      have rec: "retry E urls rm bo l2 h2 = (out, h')"
        using "1.prems" True go retry_again [OF _ _ ex _ _ fh] by simp
      have "frame h2 h'"
        using True go
        by (intro "1.IH" [OF _ refl _ ex [symmetric] refl _ _ fh [symmetric] rec]) auto
      then show ?thesis
        using f1 f2 frame_trans by blast
    qed
  qed
qed


subsection \<open>The streaming pump\<close>

lemma scan_result:
  "scan E tid mid start body acc fb w h =
     (acc + sum_list (map (\<lambda>x. line_tokens E (snd x)) body),
      w @ concat (map (\<lambda>x. snd x @ [CHR 0x0A]) body),
      h\<lparr>clock := clock h + sum_list (map fst body),
        llmTTFT := llmTTFT h @
          (case body of
             [] \<Rightarrow> []
           | x # rest \<Rightarrow> if fb then [(tid, mid, clock h + fst x - start)] else [])\<rparr>)"
proof (induction body arbitrary: acc fb w h)
  case Nil
  then show ?case by simp
next
  case (Cons x body)
  obtain wait line where x: "x = (wait, line)"
    by (cases x)
  show ?case
    unfolding x
    by (cases fb) (simp_all add: Cons.IH Let_def add.assoc split: list.splits)
qed

lemma TrimPrefix_data: "HasPrefix line ''data: '' \<Longrightarrow> TrimPrefix line ''data: '' = payload line"
  by (simp add: TrimPrefix_def payload_def numeral_eq_Suc)

lemma line_tokens_spec:
  "line_tokens E line =
     (if HasPrefix line ''data: '' \<and> payload line \<noteq> ''[DONE]'' \<and>
         (case Unmarshal_partial E (payload line) of Some choices \<Rightarrow> choices \<noteq> [] | None \<Rightarrow> False)
      then int (length (hd (the (Unmarshal_partial E (payload line))))) div 4
      else 0)"
  by (auto simp: line_tokens_def TrimPrefix_data Let_def hd_conv_nth split: option.splits)

lemma sum_list_filter_if:
  "(\<Sum>x\<leftarrow>filter P xs. f x) = (\<Sum>x\<leftarrow>xs. if P x then f x else (0::int))"
  by (induction xs) auto

lemma sum_line_tokens:
  "sum_list (map (\<lambda>x. line_tokens E (snd x)) body) = spec_output_tokens E (map snd body)"
  unfolding spec_output_tokens_def sum_list_filter_if
  by (simp add: comp_def line_tokens_spec [symmetric])

lemma streamResponse_result:
  "streamResponse E body tid mid start h =
     (spec_output_tokens E (map snd body),
      concat (map (\<lambda>x. snd x @ [CHR 0x0A]) body),
      h\<lparr>clock := clock h + sum_list (map fst body),
        llmTTFT := llmTTFT h @
          (case body of [] \<Rightarrow> [] | x # rest \<Rightarrow> [(tid, mid, clock h + fst x - start)])\<rparr>)"
  by (simp add: streamResponse_def scan_result sum_line_tokens split: list.splits)


text \<open>
  C6: for every streamed response the output tokens are the sum, over the forwarded
  lines that begin with \<open>data: \<close>, whose payload is not \<open>[DONE]\<close> and whose payload
  parses with a non-empty \<open>choices\<close>, of \<open>len(choices[0].delta.content) / 4\<close> rounded
  down; every line is forwarded, followed by a newline, whether it parses or not; this
  is the output token count of the task the handler schedules; and two chunks with the
  contents \<open>Hello\<close> and \<open> World\<close> give 2.
\<close>

theorem stream_output_tokens:
  "fst (streamResponse E body tid mid start h) = spec_output_tokens E (map snd body) \<and>
   fst (snd (streamResponse E body tid mid start h)) =
     concat (map (\<lambda>line. line @ [CHR 0x0A]) (map snd body)) \<and>
   (Stream (chatReq p) \<longrightarrow>
      map task_out (wg (snd (forward E p start r h))) =
        map task_out (wg h) @ [spec_output_tokens E (map snd (BodyLines r))]) \<and>
   (Unmarshal_partial E p1 = Some (''Hello'' # cs1) \<and>
    Unmarshal_partial E p2 = Some ('' World'' # cs2) \<and> p1 \<noteq> ''[DONE]'' \<and> p2 \<noteq> ''[DONE]'' \<longrightarrow>
      fst (streamResponse E [(w1, ''data: '' @ p1), (w2, ''data: '' @ p2)] tid mid start h) = 2)"
proof -
  have a: "fst (streamResponse E body tid mid start h) = spec_output_tokens E (map snd body)"
    by (simp add: streamResponse_result)
  have b: "fst (snd (streamResponse E body tid mid start h)) =
     concat (map (\<lambda>line. line @ [CHR 0x0A]) (map snd body))"
    by (simp add: streamResponse_result comp_def)
  have c: "map task_out (wg (snd (forward E p start r h))) =
        map task_out (wg h) @ [spec_output_tokens E (map snd (BodyLines r))]"
    if "Stream (chatReq p)"
    using that by (simp add: forward_def streamResponse_result Let_def)
  have d: "fst (streamResponse E [(w1, ''data: '' @ p1), (w2, ''data: '' @ p2)] tid mid start h) = 2"
    if "Unmarshal_partial E p1 = Some (''Hello'' # cs1)"
      "Unmarshal_partial E p2 = Some ('' World'' # cs2)" "p1 \<noteq> ''[DONE]''" "p2 \<noteq> ''[DONE]''"
    using that
    by (simp add: streamResponse_result spec_output_tokens_def payload_def HasPrefix_def)
  show ?thesis
    using a b c d by blast
qed

theorem stream_output_tokens_witness:
  "fst (streamResponse (example_env (always 200)) test_stream ''t-stream'' ''gpt-4'' 0 new_handler) = 2 \<and>
   fst (streamResponse (example_env (always 200))
          [(0, ''data: '' @ chunk_Hello), (0, ''data: '' @ chunk_World)]
          ''t-stream'' ''gpt-4'' 0 new_handler) = 2"
proof -
  note t = stream_output_tokens
    [where E = "example_env (always 200)" and ?p1.0 = chunk_Hello and ?p2.0 = chunk_World
       and ?cs1.0 = "[]" and ?cs2.0 = "[]" and ?w1.0 = 0 and ?w2.0 = 0
       and tid = "''t-stream''" and mid = "''gpt-4''" and start = 0 and h = new_handler
       and body = test_stream]
  have u: "Unmarshal_partial (example_env (always 200)) chunk_Hello = Some [''Hello'']"
    "Unmarshal_partial (example_env (always 200)) chunk_World = Some ['' World'']"
    "chunk_Hello \<noteq> ''[DONE]''" "chunk_World \<noteq> ''[DONE]''"
    by (simp_all add: example_env_def chunk_Hello_def chunk_World_def)
  have v: "spec_output_tokens (example_env (always 200)) (map snd test_stream) = 2"
    using u by (simp add: spec_output_tokens_def test_stream_def payload_def HasPrefix_def)
  from t u v show ?thesis
    by simp
qed

declare log_usage.simps [simp del]

subsection \<open>After the loop\<close>

lemma CreateCompletion_finished:
  "intake E tenantCtx req = Inr p \<Longrightarrow>
   retry E (baseURLs p) (retryMax p) (backoffMs p) loop0 h = (Finished ro eo, h1) \<Longrightarrow>
     CreateCompletion E tenantCtx req h = respond E p (clock h) ro eo h1"
  by (simp add: CreateCompletion_def)

lemma CreateCompletion_request_failed:
  "intake E tenantCtx req = Inr p \<Longrightarrow>
   retry E (baseURLs p) (retryMax p) (backoffMs p) loop0 h = (RequestFailed, h1) \<Longrightarrow>
     CreateCompletion E tenantCtx req h =
       (error_response StatusInternalServerError ''Failed to create upstream request'', h1)"
  by (simp add: CreateCompletion_def)

lemma respond_forward:
  "StatusCode r < 500 \<Longrightarrow> respond E p start (Some r) None h = forward E p start r h"
  by (simp add: respond_def)

lemma forward_result:
  "forward E p start r h =
     (\<lparr>Status = StatusCode r, Header = forward_headers (RespHeader r),
       Body = Raw (if Stream (chatReq p) then concat (map (\<lambda>x. snd x @ [CHR 0x0A]) (BodyLines r))
                   else BodyBytes r)\<rparr>,
      h\<lparr>clock := clock h + (if Stream (chatReq p) then sum_list (map fst (BodyLines r))
                              else ReadAllTime r),
        llmTTFT := llmTTFT h @
          (if Stream (chatReq p)
           then (case BodyLines r of
                   [] \<Rightarrow> []
                 | x # rest \<Rightarrow>
                     [(Tenant.TenantID (caller p), Model (chatReq p), clock h + fst x - start)])
           else []),
        wg := wg h @
          [\<lparr>task_tid = Tenant.TenantID (caller p), task_mid = Model (chatReq p),
            task_in = int (length (bodyBytes p)) div 4,
            task_out = (if Stream (chatReq p) then spec_output_tokens E (map snd (BodyLines r))
                        else int (length (BodyBytes r)) div 4),
            task_start = start\<rparr>],
        llmTokenUsage := llmTokenUsage h @
          [(Tenant.TenantID (caller p), Model (chatReq p), int (length (bodyBytes p)) div 4,
            if Stream (chatReq p) then spec_output_tokens E (map snd (BodyLines r))
            else int (length (BodyBytes r)) div 4)]\<rparr>)"
  by (cases "Stream (chatReq p)") (simp_all add: forward_def streamResponse_result Let_def)

lemma intake_bodyBytes: "intake E tenantCtx req = Inr p \<Longrightarrow> bodyBytes p = RequestBody req"
  by (auto simp: intake_def split: option.splits if_splits sum.splits)

lemma respond_not_forwarded:
  "\<not> (\<exists>r. ro = Some r \<and> eo = None \<and> StatusCode r < 500) \<Longrightarrow>
     snd (respond E p start ro eo h) = h"
  by (auto simp: respond_def split: option.splits)

text \<open>
  C7: for a request with \<open>stream = true\<close>, when the loop leaves a response to forward,
  the body written to the caller is the upstream lines, each followed by a newline, and
  the TTFT metric gets one observation exactly when there is at least one line and none
  otherwise; the observation is made at the first line and is the wall time since the
  handler took its start time (the clock does not go back, so the difference is the
  time elapsed). When nothing is forwarded (any other exit of the loop) TTFT is not
  observed.
\<close>

theorem ttft_recorded_once:
  assumes "intake E tenantCtx req = Inr p" and "Stream (chatReq p)"
    and "retry E (baseURLs p) (retryMax p) (backoffMs p) loop0 h = (out, h1)"
  shows "clock h \<le> clock h1 \<and>
    (\<forall>r. out = Finished (Some r) None \<and> StatusCode r < 500 \<longrightarrow>
       Body (fst (CreateCompletion E tenantCtx req h)) =
         Raw (concat (map (\<lambda>x. snd x @ [CHR 0x0A]) (BodyLines r))) \<and>
       llmTTFT (snd (CreateCompletion E tenantCtx req h)) =
         llmTTFT h @
         (case BodyLines r of
            [] \<Rightarrow> []
          | x # rest \<Rightarrow>
              [(Tenant.TenantID (caller p), Model (chatReq p), clock h1 + fst x - clock h)])) \<and>
    (\<not> (\<exists>r. out = Finished (Some r) None \<and> StatusCode r < 500) \<longrightarrow>
       llmTTFT (snd (CreateCompletion E tenantCtx req h)) = llmTTFT h)"
proof -
  have fr: "frame h h1"
    by (rule retry_frame [OF assms(3)])
  have a: "clock h \<le> clock h1"
    using fr by (simp add: frame_def)
  have b: "Body (fst (CreateCompletion E tenantCtx req h)) =
         Raw (concat (map (\<lambda>x. snd x @ [CHR 0x0A]) (BodyLines r))) \<and>
       llmTTFT (snd (CreateCompletion E tenantCtx req h)) =
         llmTTFT h @
         (case BodyLines r of
            [] \<Rightarrow> []
          | x # rest \<Rightarrow>
              [(Tenant.TenantID (caller p), Model (chatReq p), clock h1 + fst x - clock h)])"
    if "out = Finished (Some r) None" "StatusCode r < 500" for r
  proof -
    have "CreateCompletion E tenantCtx req h = forward E p (clock h) r h1"
      using CreateCompletion_finished [OF assms(1)] assms(3) that
      by (simp add: respond_forward)
    then show ?thesis
      using fr assms(2) by (simp add: forward_result frame_def)
  qed
  have c: "llmTTFT (snd (CreateCompletion E tenantCtx req h)) = llmTTFT h"
    if n: "\<not> (\<exists>r. out = Finished (Some r) None \<and> StatusCode r < 500)"
  proof (cases out)
    case RequestFailed
    then show ?thesis
      using CreateCompletion_request_failed [OF assms(1)] assms(3) fr
      by (simp add: frame_def)
  next
    case (Finished ro eo)
    then have "snd (CreateCompletion E tenantCtx req h) = h1"
      using CreateCompletion_finished [OF assms(1)] assms(3) n
      by (simp add: respond_not_forwarded)
    then show ?thesis
      using fr by (simp add: frame_def)
  qed
  show ?thesis
    using a b c by blast
qed


subsection \<open>How the loop ends\<close>

lemma retryMax_of_range: "0 \<le> retryMax_of req \<and> retryMax_of req \<le> 10"
  by (simp add: retryMax_of_def Let_def split: option.splits)

lemma retry_exit_has_response:
  "retry E urls rm bo l h = (Finished ro eo, h') \<Longrightarrow>
   attempt l \<le> rm \<or> (lastErr l = None \<longrightarrow> resp l \<noteq> None) \<Longrightarrow>
     eo = None \<longrightarrow> ro \<noteq> None"
proof (induction E urls rm bo l h arbitrary: ro eo h' rule: retry.induct)
  case (1 E urls rm bo l h)
  show ?case
  proof (cases "attempt l \<le> rm")
    case False
    then show ?thesis
      using "1.prems" retry_done [of l rm E urls bo h] by auto
  next
    case True
    show ?thesis
    proof (cases "NewRequest_ok E (urls ! (urlIndex l mod length urls))")
      case False
      then show ?thesis
        using "1.prems" True retry_bad_url [of l rm E urls bo h] by simp
    next
      case ok: True
      obtain res h1 where ex: "Execute E (urls ! (urlIndex l mod length urls)) h = (res, h1)"
        by (cases "Execute E (urls ! (urlIndex l mod length urls)) h")
      have inv: "lastErr (record_result res l) = None \<longrightarrow> resp (record_result res l) \<noteq> None"
        by (simp add: record_result_def split: sum.splits)
      show ?thesis
      proof (cases "res = Inl ErrOpenState \<or> succeeded (record_result res l)")
        case stop: True
        then show ?thesis
          using "1.prems"(1) True ok retry_stop [OF _ _ ex stop, of rm bo] inv by auto
      next
        case go: False
        obtain l2 h2 where fh: "failure_handling rm bo (record_result res l) h1 = (l2, h2)"
          by (cases "failure_handling rm bo (record_result res l) h1")
        have rec: "retry E urls rm bo l2 h2 = (Finished ro eo, h')"
          using "1.prems"(1) True ok go retry_again [OF _ _ ex _ _ fh] by simp
        have inv2: "lastErr l2 = None \<longrightarrow> resp l2 \<noteq> None"
          using fh inv by (auto simp: failure_handling_def Let_def split: if_splits)
        show ?thesis
          using True ok go inv2
          by (intro "1.IH" [OF _ refl _ ex [symmetric] refl _ _ fh [symmetric] rec]) auto
      qed
    qed
  qed
qed

lemma intake_retryMax_nonneg: "intake E tenantCtx req = Inr p \<Longrightarrow> 0 \<le> retryMax p"
  using intake_policy [of E tenantCtx req p] retryMax_of_range [of req] by simp

subsection \<open>Evaluating the loop on concrete upstreams\<close>

lemmas breaker_defs = beforeRequest_def afterRequest_def currentState_def cb_onSuccess_def
  cb_onFailure_def onRequest_def onSuccess_def onFailure_def uint32_def ReadyToTrip_def
  setState_def toNewGeneration_def Before_def NewCircuitBreaker_def clear_def
  Interval_def Timeout_def MaxRequests_def Second_def Millisecond_def

lemmas loop_defs = Execute_def record_result_def succeeded_def shouldFailover_def
  failure_handling_def Sleep_def sleepTime_def wrap64_def loop0_def

lemma example_env_simps:
  "NewRequest_ok (example_env d) url" "Do (example_env d) = d"
  by (simp_all add: example_env_def)

lemma retryMax_default: "retryMax_of (example_request [] backoff b) = 3"
  by (simp add: retryMax_of_def example_request_def)

lemma backoffMs_default: "backoffMs_of (example_request rmax [] b) = 100"
  by (simp add: backoffMs_of_def example_request_def)

lemma retry_429:
  "retry (example_env (always 429)) [''http://a'', ''http://b''] 3 100 loop0 new_handler =
     (Finished (Some \<lparr>StatusCode = 429, RespHeader = [], BodyBytes = [], ReadAllTime = 0,
                      BodyLines = []\<rparr>) None,
      new_handler\<lparr>cb := (cb new_handler)\<lparr>counts :=
         \<lparr>Requests = 4, TotalSuccesses = 4, TotalFailures = 0, ConsecutiveSuccesses = 4,
          ConsecutiveFailures = 0\<rparr>\<rparr>,
        contacted := [''http://a'', ''http://b'', ''http://a'', ''http://b'']\<rparr>)"
  by (simp add: retry.simps loop_defs breaker_defs example_env_simps always_def new_handler_def
      Let_def mod_Suc)

text \<open>
  C4, as stated, fails: with an upstream that answers every attempt 429 the loop uses up
  its four attempts (two rounds over the two URLs) without a success-class response, and
  the caller receives that 429, not 502.
\<close>

theorem exhausted_429_is_forwarded:
  "CreateCompletion (example_env (always 429)) (Some example_tenant)
     (example_request [] [] example_body) new_handler =
   (\<lparr>Status = 429, Header = [], Body = Raw []\<rparr>,
    new_handler\<lparr>cb := (cb new_handler)\<lparr>counts :=
         \<lparr>Requests = 4, TotalSuccesses = 4, TotalFailures = 0, ConsecutiveSuccesses = 4,
          ConsecutiveFailures = 0\<rparr>\<rparr>,
        contacted := [''http://a'', ''http://b'', ''http://a'', ''http://b''],
        wg := [\<lparr>task_tid = ''t1'', task_mid = ''gpt-4'', task_in = 8, task_out = 0,
                task_start = 0\<rparr>],
        llmTokenUsage := [(''t1'', ''gpt-4'', 8, 0)]\<rparr>)"
proof -
  have "CreateCompletion (example_env (always 429)) (Some example_tenant)
      (example_request [] [] example_body) new_handler =
    respond (example_env (always 429))
      \<lparr>caller = example_tenant, bodyBytes = example_body,
        chatReq = \<lparr>Model = ''gpt-4'', Messages = [], Stream = False\<rparr>,
        baseURLs = [''http://a'', ''http://b''], apiKey = ''sk-upstream'',
        retryMax = retryMax_of (example_request [] [] example_body),
        backoffMs = backoffMs_of (example_request [] [] example_body)\<rparr>
      (clock new_handler)
      (Some \<lparr>StatusCode = 429, RespHeader = [], BodyBytes = [], ReadAllTime = 0,
              BodyLines = []\<rparr>) None
      (new_handler\<lparr>cb := (cb new_handler)\<lparr>counts :=
         \<lparr>Requests = 4, TotalSuccesses = 4, TotalFailures = 0, ConsecutiveSuccesses = 4,
          ConsecutiveFailures = 0\<rparr>\<rparr>,
        contacted := [''http://a'', ''http://b'', ''http://a'', ''http://b'']\<rparr>)"
    by (rule CreateCompletion_finished [OF example_intake])
       (simp add: retryMax_default backoffMs_default retry_429)
  then show ?thesis
    by (simp add: respond_def forward_result forward_headers_def example_body_def
        example_tenant_def new_handler_def)
qed

text \<open>
  C4, amended: when the loop ends with an error as its last outcome (transport error,
  breaker open or too many requests) the caller receives 502 with
  \<open>{"details":..., "error":"Upstream provider failed"}\<close>; when it ends with a
  response of status 500 or more, 502 with
  \<open>{"error":"Upstream provider error","status":code}\<close>; when it ends, its attempts
  used up, with a response of status 429, that response is forwarded to the caller with
  its status 429. The loop never ends with neither an error nor a response.
\<close>

theorem loop_exit_responses:
  assumes "intake E tenantCtx req = Inr p"
    and "retry E (baseURLs p) (retryMax p) (backoffMs p) loop0 h = (Finished ro eo, h1)"
  shows "(\<forall>e. eo = Some e \<longrightarrow>
            CreateCompletion E tenantCtx req h =
              (\<lparr>Status = 502, Header = [],
                Body = JSON [(''details'', JString (Error e)),
                             (''error'', JString ''Upstream provider failed'')]\<rparr>, h1)) \<and>
    (\<forall>r. eo = None \<and> ro = Some r \<and> StatusCode r \<ge> 500 \<longrightarrow>
            CreateCompletion E tenantCtx req h =
              (\<lparr>Status = 502, Header = [],
                Body = JSON [(''error'', JString ''Upstream provider error''),
                             (''status'', JInt (StatusCode r))]\<rparr>, h1)) \<and>
    (\<forall>r. eo = None \<and> ro = Some r \<and> StatusCode r = 429 \<longrightarrow>
            CreateCompletion E tenantCtx req h = forward E p (clock h) r h1 \<and>
            Status (fst (CreateCompletion E tenantCtx req h)) = 429) \<and>
    (eo = None \<longrightarrow> ro \<noteq> None)"
proof -
  note cc = CreateCompletion_finished [OF assms]
  have a: "CreateCompletion E tenantCtx req h =
              (\<lparr>Status = 502, Header = [],
                Body = JSON [(''details'', JString (Error e)),
                             (''error'', JString ''Upstream provider failed'')]\<rparr>, h1)"
    if "eo = Some e" for e
    using that by (simp add: cc respond_def StatusBadGateway_def)
  have b: "CreateCompletion E tenantCtx req h =
              (\<lparr>Status = 502, Header = [],
                Body = JSON [(''error'', JString ''Upstream provider error''),
                             (''status'', JInt (StatusCode r))]\<rparr>, h1)"
    if "eo = None" "ro = Some r" "StatusCode r \<ge> 500" for r
    using that by (simp add: cc respond_def StatusBadGateway_def)
  have c: "CreateCompletion E tenantCtx req h = forward E p (clock h) r h1 \<and>
            Status (fst (CreateCompletion E tenantCtx req h)) = 429"
    if "eo = None" "ro = Some r" "StatusCode r = 429" for r
    using that by (simp add: cc respond_def forward_result)
  have d: "eo = None \<longrightarrow> ro \<noteq> None"
    using retry_exit_has_response [OF assms(2)] intake_retryMax_nonneg [OF assms(1)]
    by (simp add: loop0_def)
  show ?thesis
    using a b c d by blast
qed

subsection \<open>Deferred bookkeeping\<close>

lemma LogUsage_cases:
  "LogUsage rec u =
     (if Failures u \<noteq> [] \<and> hd (Failures u)
      then (Some ''failed to put item to DynamoDB'', u\<lparr>Failures := tl (Failures u)\<rparr>)
      else (None, u\<lparr>Records := Records u @ [rec], Failures := tl (Failures u)\<rparr>))"
  by (cases "Failures u"; cases "hd (Failures u)") (auto simp: LogUsage_def)

text \<open>
  The loop over the sink from \<open>i\<close> on: it appends the record unless all the calls
  left fail, and pauses \<open>100 * (j + 1)\<close> ms after each call \<open>j\<close> that fails.
\<close>

lemma log_usage_result:
  "Records (fst (log_usage i rec u slept)) =
     (if length (takeWhile (\<lambda>b. b) (take (3 - i) (Failures u))) < 3 - i then Records u @ [rec]
      else Records u) \<and>
   snd (log_usage i rec u slept) =
     slept @ map (\<lambda>j. 100 * (j + 1) * Millisecond)
               [i..<i + length (takeWhile (\<lambda>b. b) (take (3 - i) (Failures u)))]"
proof (induction i rec u slept rule: log_usage.induct)
  case (1 i rec u slept)
  show ?case
  proof (cases "i < 3")
    case False
    then show ?thesis
      by (subst (1 2) log_usage.simps) simp
  next
    case True
    show ?thesis
    proof (cases "Failures u \<noteq> [] \<and> hd (Failures u)")
      case fails: True
      then obtain fs where fs: "Failures u = True # fs"
        by (cases "Failures u") auto
      let ?u1 = "u\<lparr>Failures := fs\<rparr>"
      have lu: "LogUsage rec u = (Some ''failed to put item to DynamoDB'', ?u1)"
        by (simp add: LogUsage_def fs)
      note ih = "1.IH" [OF True lu [symmetric] refl]
      have tk: "take (3 - i) (True # fs) = True # take (3 - (i + 1)) fs"
      proof -
        have "3 - i = Suc (3 - (i + 1))"
          using True by simp
        then show ?thesis
          by (simp only: take_Suc_Cons)
      qed
      have step: "log_usage i rec u slept =
          log_usage (i + 1) rec ?u1 (slept @ [100 * (i + 1) * Millisecond])"
        using True by (subst log_usage.simps) (simp add: lu)
      let ?k1 = "length (takeWhile (\<lambda>b. b) (take (3 - (i + 1)) fs))"
      have k: "length (takeWhile (\<lambda>b. b) (take (3 - i) (Failures u))) = Suc ?k1"
        by (simp add: fs tk)
      have lt: "(Suc ?k1 < 3 - i) = (?k1 < 3 - (i + 1))"
        using True by auto
      have up: "[i..<i + Suc ?k1] = i # [i + 1..<i + 1 + ?k1]"
        using upt_conv_Cons [of i "i + Suc ?k1"] by (simp del: upt_Suc)
      have "Records (fst (log_usage (i + 1) rec ?u1 (slept @ [100 * (i + 1) * Millisecond]))) =
          (if Suc ?k1 < 3 - i then Records u @ [rec] else Records u)"
        using ih lt by (simp del: upt_Suc)
      moreover have "snd (log_usage (i + 1) rec ?u1 (slept @ [100 * (i + 1) * Millisecond])) =
          slept @ map (\<lambda>j. 100 * (j + 1) * Millisecond) [i..<i + Suc ?k1]"
        using ih unfolding up by (simp del: upt_Suc)
      ultimately show ?thesis
        unfolding step k by blast
    next
      case ok: False
      then have lu: "LogUsage rec u = (None, u\<lparr>Records := Records u @ [rec], Failures := tl (Failures u)\<rparr>)"
        by (simp add: LogUsage_cases)
      have tw: "takeWhile (\<lambda>b. b) (take (3 - i) (Failures u)) = []"
        using ok True by (cases "Failures u"; cases "3 - i") auto
      have step: "log_usage i rec u slept =
          (u\<lparr>Records := Records u @ [rec], Failures := tl (Failures u)\<rparr>, slept)"
        using True by (subst log_usage.simps) (simp add: lu)
      show ?thesis
        unfolding step using True by (simp add: tw)
    qed
  qed
qed

lemma bookkeeping_result:
  "bookkeeping rid tk rl us =
     (snd (IncrementTPM rl (task_tid tk) (task_in tk + task_out tk)),
      fst (log_usage 0 (usage_record rid tk) us []),
      snd (log_usage 0 (usage_record rid tk) us []))"
  by (simp add: bookkeeping_def Let_def split: prod.splits)

lemma bookkeeping_records:
  "Records (fst (snd (bookkeeping rid tk rl us))) =
     (if length (takeWhile (\<lambda>b. b) (take 3 (Failures us))) < 3
      then Records us @ [usage_record rid tk] else Records us) \<and>
   snd (snd (bookkeeping rid tk rl us)) =
     map (\<lambda>j. 100 * (j + 1) * Millisecond)
       [0..<length (takeWhile (\<lambda>b. b) (take 3 (Failures us)))]"
  using log_usage_result [of 0 "usage_record rid tk" us "[]"]
  by (simp add: bookkeeping_result)

lemma bookkeeping_sink_ok:
  "Failures us = [] \<Longrightarrow>
     Records (fst (snd (bookkeeping rid tk rl us))) = Records us @ [usage_record rid tk]"
  by (simp add: bookkeeping_records)

lemma bookkeeping_TPM:
  "Err rl = None \<Longrightarrow>
     TPM (fst (bookkeeping rid tk rl us)) (task_tid tk) =
       wrap64 (TPM rl (task_tid tk) + (task_in tk + task_out tk))"
  by (simp add: bookkeeping_result IncrementTPM_def Let_def)

lemma CreateCompletion_forwarded:
  assumes "intake E tenantCtx req = Inr p"
    and "retry E (baseURLs p) (retryMax p) (backoffMs p) loop0 h = (Finished (Some r) None, h1)"
    and "StatusCode r < 500"
  shows "CreateCompletion E tenantCtx req h = forward E p (clock h) r h1"
  using CreateCompletion_finished [OF assms(1,2)] assms(3) by (simp add: respond_forward)

lemma forwarded_wg:
  assumes "intake E tenantCtx req = Inr p"
    and "retry E (baseURLs p) (retryMax p) (backoffMs p) loop0 h = (Finished (Some r) None, h1)"
    and "StatusCode r < 500"
  shows "wg (snd (CreateCompletion E tenantCtx req h)) =
     wg h @
     [\<lparr>task_tid = Tenant.TenantID (caller p), task_mid = Model (chatReq p),
       task_in = int (length (RequestBody req)) div 4,
       task_out = (if Stream (chatReq p) then spec_output_tokens E (map snd (BodyLines r))
                   else int (length (BodyBytes r)) div 4),
       task_start = clock h\<rparr>]"
proof -
  have "wg h1 = wg h"
    using retry_frame [OF assms(2)] by (simp add: frame_def)
  then show ?thesis
    by (simp add: CreateCompletion_forwarded [OF assms] forward_result intake_bodyBytes [OF assms(1)])
qed

lemma CreateCompletion_forbidden:
  assumes "length (RequestBody req) \<le> 10 * 1024 * 1024" "\<not> ReadFails req"
    "Unmarshal_ChatRequest E (RequestBody req) = Some cr" "length (Messages cr) \<le> 50"
    "\<not> allowed tn (Model cr)"
  shows "CreateCompletion E (Some tn) req h =
     (error_response StatusForbidden ''Model not allowed for this tenant'', h)"
  using assms by (simp add: CreateCompletion_def intake_def)

text \<open>
  C9: when the handler forwards an upstream response (in particular a 2xx) it schedules
  one task, and that task, run against a sink that does not fail, appends exactly one
  usage record; in general the task calls the sink until a call succeeds, at most three
  times, pausing \<open>100 * attempt\<close> ms after each call that fails, and appends the
  record unless all three fail. A request that passes the body checks and asks for a
  model outside the tenant's allowed list is answered 403 and leaves the handler as it
  was: no upstream is contacted and no task is scheduled, so no usage record is written.
\<close>

theorem usage_recorded_once:
  "(intake E tenantCtx req = Inr p \<and>
    retry E (baseURLs p) (retryMax p) (backoffMs p) loop0 h = (Finished (Some r) None, h1) \<and>
    StatusCode r < 500 \<longrightarrow>
      Status (fst (CreateCompletion E tenantCtx req h)) = StatusCode r \<and>
      (\<exists>tk. wg (snd (CreateCompletion E tenantCtx req h)) = wg h @ [tk] \<and>
            (\<forall>rid rl us. Failures us = [] \<longrightarrow>
               Records (fst (snd (bookkeeping rid tk rl us))) =
                 Records us @ [usage_record rid tk]))) \<and>
   Records (fst (snd (bookkeeping rid tk rl us))) =
     (if length (takeWhile (\<lambda>b. b) (take 3 (Failures us))) < 3
      then Records us @ [usage_record rid tk] else Records us) \<and>
   snd (snd (bookkeeping rid tk rl us)) =
     map (\<lambda>j. 100 * (j + 1) * Millisecond)
       [0..<length (takeWhile (\<lambda>b. b) (take 3 (Failures us)))] \<and>
   (length (RequestBody req) \<le> 10 * 1024 * 1024 \<and> \<not> ReadFails req \<and>
    Unmarshal_ChatRequest E (RequestBody req) = Some cr \<and> length (Messages cr) \<le> 50 \<and>
    \<not> allowed tn (Model cr) \<longrightarrow>
      CreateCompletion E (Some tn) req h =
        (error_response StatusForbidden ''Model not allowed for this tenant'', h))"
proof -
  have a: "Status (fst (CreateCompletion E tenantCtx req h)) = StatusCode r \<and>
      (\<exists>tk. wg (snd (CreateCompletion E tenantCtx req h)) = wg h @ [tk] \<and>
            (\<forall>rid rl us. Failures us = [] \<longrightarrow>
               Records (fst (snd (bookkeeping rid tk rl us))) =
                 Records us @ [usage_record rid tk]))"
    if h: "intake E tenantCtx req = Inr p"
      "retry E (baseURLs p) (retryMax p) (backoffMs p) loop0 h = (Finished (Some r) None, h1)"
      "StatusCode r < 500"
  proof -
    have "Status (fst (CreateCompletion E tenantCtx req h)) = StatusCode r"
      by (simp add: CreateCompletion_forwarded [OF h] forward_result)
    then show ?thesis
      using forwarded_wg [OF h] bookkeeping_sink_ok by blast
  qed
  show ?thesis
    using a bookkeeping_records [of rid tk rl us] CreateCompletion_forbidden [of req E cr tn h]
    by blast
qed

text \<open>
  C10: for every request whose upstream response is forwarded to the caller, whatever
  its status below 500 (a 4xx as a 2xx) and whatever was read of the body (all of it or
  a part), the handler schedules exactly one task, with the tenant, the model, the input
  estimate \<open>len(body) / 4\<close> and the output estimate; the task adds input plus output to
  the tenant's TPM counter (an \<open>int64\<close>; the store answering) and appends one usage
  record (the sink accepting it).
\<close>

theorem bookkeeping_any_status:
  assumes "intake E tenantCtx req = Inr p"
    and "retry E (baseURLs p) (retryMax p) (backoffMs p) loop0 h = (Finished (Some r) None, h1)"
    and "StatusCode r < 500"
  shows "Status (fst (CreateCompletion E tenantCtx req h)) = StatusCode r \<and>
    wg (snd (CreateCompletion E tenantCtx req h)) =
     wg h @
     [\<lparr>task_tid = Tenant.TenantID (caller p), task_mid = Model (chatReq p),
       task_in = int (length (RequestBody req)) div 4,
       task_out = (if Stream (chatReq p) then spec_output_tokens E (map snd (BodyLines r))
                   else int (length (BodyBytes r)) div 4),
       task_start = clock h\<rparr>] \<and>
    (\<forall>rid tk rl us. Err rl = None \<longrightarrow>
       TPM (fst (bookkeeping rid tk rl us)) (task_tid tk) =
         wrap64 (TPM rl (task_tid tk) + (task_in tk + task_out tk))) \<and>
    (\<forall>rid tk rl us. Failures us = [] \<longrightarrow>
       Records (fst (snd (bookkeeping rid tk rl us))) = Records us @ [usage_record rid tk])"
proof -
  have "Status (fst (CreateCompletion E tenantCtx req h)) = StatusCode r"
    by (simp add: CreateCompletion_forwarded [OF assms] forward_result)
  then show ?thesis
    using forwarded_wg [OF assms] bookkeeping_TPM bookkeeping_sink_ok by blast
qed

subsection \<open>The claims on concrete requests\<close>

lemma example_intake_plan:
  "intake (example_env d) (Some example_tenant) (example_request rmax backoff example_body) =
     Inr (example_plan rmax backoff)"
  by (simp add: example_intake example_plan_def)

lemma example_stream_intake:
  "intake (example_env d) (Some example_tenant) (example_request [] [] example_stream_body) =
     Inr example_stream_plan"
  by (simp add: intake_def example_env_def example_request_def example_body_def
      example_stream_body_def example_tenant_def example_model_def allowed_def
      example_stream_plan_def retryMax_of_def backoffMs_of_def)

lemma example_plan_simps:
  "baseURLs (example_plan rmax backoff) = [''http://a'', ''http://b'']"
  "retryMax (example_plan [] backoff) = 3"
  "backoffMs (example_plan rmax []) = 100"
  "caller (example_plan rmax backoff) = example_tenant"
  "chatReq (example_plan rmax backoff) = \<lparr>Model = ''gpt-4'', Messages = [], Stream = False\<rparr>"
  by (simp_all add: example_plan_def retryMax_default backoffMs_default)

lemma retry_always_forwarded:
  assumes "code < 500" "code \<noteq> 429" "0 \<le> rm"
  shows "retry (example_env (always code)) [''http://a'', ''http://b''] rm bo loop0 new_handler =
     (Finished (Some \<lparr>StatusCode = code, RespHeader = [], BodyBytes = [], ReadAllTime = 0,
                      BodyLines = []\<rparr>) None,
      new_handler\<lparr>cb := (cb new_handler)\<lparr>counts :=
         \<lparr>Requests = 1, TotalSuccesses = 1, TotalFailures = 0, ConsecutiveSuccesses = 1,
          ConsecutiveFailures = 0\<rparr>\<rparr>,
        contacted := [''http://a'']\<rparr>)"
  using assms
  by (subst retry.simps)
     (simp add: loop_defs breaker_defs example_env_simps always_def new_handler_def Let_def)

lemma retry_streaming:
  "retry (example_env streaming_upstream) [''http://a'', ''http://b''] 3 100 loop0 new_handler =
     (Finished (Some \<lparr>StatusCode = 200, RespHeader = [(''Content-Type'', [''text/event-stream''])],
           BodyBytes = concat (map (\<lambda>x. snd x @ [CHR 0x0A]) test_stream), ReadAllTime = 0,
           BodyLines = test_stream\<rparr>) None,
      new_handler\<lparr>cb := (cb new_handler)\<lparr>counts :=
         \<lparr>Requests = 1, TotalSuccesses = 1, TotalFailures = 0, ConsecutiveSuccesses = 1,
          ConsecutiveFailures = 0\<rparr>\<rparr>,
        clock := 20 * Millisecond,
        contacted := [''http://a'']\<rparr>)"
  by (subst retry.simps)
     (simp add: loop_defs breaker_defs example_env_simps streaming_upstream_def new_handler_def
        Let_def)

lemma retry_500:
  "retry (example_env (always 500)) [''http://a'', ''http://b''] 3 100 loop0 new_handler =
     (Finished (Some \<lparr>StatusCode = 500, RespHeader = [], BodyBytes = [], ReadAllTime = 0,
                      BodyLines = []\<rparr>) None,
      new_handler\<lparr>cb := (cb new_handler)\<lparr>counts :=
         \<lparr>Requests = 4, TotalSuccesses = 4, TotalFailures = 0, ConsecutiveSuccesses = 4,
          ConsecutiveFailures = 0\<rparr>\<rparr>,
        clock := 700 * Millisecond,
        contacted := [''http://a'', ''http://b'', ''http://a'', ''http://b'']\<rparr>)"
  by (simp add: retry.simps loop_defs breaker_defs example_env_simps always_def new_handler_def
      Let_def mod_Suc)

theorem loop_exit_responses_witness:
  "CreateCompletion (example_env (always 500)) (Some example_tenant)
     (example_request [] [] example_body) new_handler =
   (\<lparr>Status = 502, Header = [],
     Body = JSON [(''error'', JString ''Upstream provider error''), (''status'', JInt 500)]\<rparr>,
    new_handler\<lparr>cb := (cb new_handler)\<lparr>counts :=
         \<lparr>Requests = 4, TotalSuccesses = 4, TotalFailures = 0, ConsecutiveSuccesses = 4,
          ConsecutiveFailures = 0\<rparr>\<rparr>,
        clock := 700 * Millisecond,
        contacted := [''http://a'', ''http://b'', ''http://a'', ''http://b'']\<rparr>)"
proof -
  have r: "retry (example_env (always 500)) (baseURLs (example_plan [] []))
      (retryMax (example_plan [] [])) (backoffMs (example_plan [] [])) loop0 new_handler =
     (Finished (Some \<lparr>StatusCode = 500, RespHeader = [], BodyBytes = [], ReadAllTime = 0,
                      BodyLines = []\<rparr>) None,
      new_handler\<lparr>cb := (cb new_handler)\<lparr>counts :=
         \<lparr>Requests = 4, TotalSuccesses = 4, TotalFailures = 0, ConsecutiveSuccesses = 4,
          ConsecutiveFailures = 0\<rparr>\<rparr>,
        clock := 700 * Millisecond,
        contacted := [''http://a'', ''http://b'', ''http://a'', ''http://b'']\<rparr>)"
    by (simp add: example_plan_simps retry_500)
  from loop_exit_responses [OF example_intake_plan r] show ?thesis
    by simp
qed


theorem ttft_recorded_once_witness:
  "llmTTFT (snd (CreateCompletion (example_env streaming_upstream) (Some example_tenant)
                   (example_request [] [] example_stream_body) new_handler)) =
     [(''t1'', ''gpt-4'', 30 * Millisecond)] \<and>
   Body (fst (CreateCompletion (example_env streaming_upstream) (Some example_tenant)
                (example_request [] [] example_stream_body) new_handler)) =
     Raw (concat (map (\<lambda>x. snd x @ [CHR 0x0A]) test_stream))"
proof -
  have s: "Stream (chatReq example_stream_plan)"
    by (simp add: example_stream_plan_def)
  have r: "retry (example_env streaming_upstream) (baseURLs example_stream_plan)
      (retryMax example_stream_plan) (backoffMs example_stream_plan) loop0 new_handler =
     (Finished (Some \<lparr>StatusCode = 200, RespHeader = [(''Content-Type'', [''text/event-stream''])],
           BodyBytes = concat (map (\<lambda>x. snd x @ [CHR 0x0A]) test_stream), ReadAllTime = 0,
           BodyLines = test_stream\<rparr>) None,
      new_handler\<lparr>cb := (cb new_handler)\<lparr>counts :=
         \<lparr>Requests = 1, TotalSuccesses = 1, TotalFailures = 0, ConsecutiveSuccesses = 1,
          ConsecutiveFailures = 0\<rparr>\<rparr>,
        clock := 20 * Millisecond,
        contacted := [''http://a'']\<rparr>)"
    by (simp add: example_stream_plan_def retry_streaming)
  from ttft_recorded_once [OF example_stream_intake s r] show ?thesis
    by (simp add: test_stream_def example_stream_plan_def example_tenant_def new_handler_def
        Millisecond_def)
qed

theorem usage_recorded_once_witness:
  "wg (snd (CreateCompletion (example_env (always 200)) (Some example_tenant)
              (example_request [] [] example_body) new_handler)) =
     [\<lparr>task_tid = ''t1'', task_mid = ''gpt-4'', task_in = 8, task_out = 0, task_start = 0\<rparr>] \<and>
   Records (fst (snd (bookkeeping ''request-1''
     \<lparr>task_tid = ''t1'', task_mid = ''gpt-4'', task_in = 8, task_out = 0, task_start = 0\<rparr>
     empty_limits empty_sink))) =
     [\<lparr>UsageRecord.TenantID = ''t1'', Timestamp = 0, RequestID = ''request-1'',
       UsageRecord.ModelID = ''gpt-4'', InputTokens = 8, OutputTokens = 0\<rparr>] \<and>
   CreateCompletion (example_env (always 200)) (Some claude_tenant)
     (example_request [] [] example_body) new_handler =
     (error_response StatusForbidden ''Model not allowed for this tenant'', new_handler)"
proof -
  let ?E = "example_env (always 200)"
  let ?req = "example_request [] [] example_body"
  let ?tk = "\<lparr>task_tid = ''t1'', task_mid = ''gpt-4'', task_in = 8, task_out = 0,
              task_start = 0\<rparr>"
  have r: "retry ?E (baseURLs (example_plan [] [])) (retryMax (example_plan [] []))
      (backoffMs (example_plan [] [])) loop0 new_handler =
     (Finished (Some \<lparr>StatusCode = 200, RespHeader = [], BodyBytes = [], ReadAllTime = 0,
                      BodyLines = []\<rparr>) None,
      new_handler\<lparr>cb := (cb new_handler)\<lparr>counts :=
         \<lparr>Requests = 1, TotalSuccesses = 1, TotalFailures = 0, ConsecutiveSuccesses = 1,
          ConsecutiveFailures = 0\<rparr>\<rparr>,
        contacted := [''http://a'']\<rparr>)"
    by (simp add: example_plan_simps retry_always_forwarded)
  have f: "length (RequestBody ?req) \<le> 10 * 1024 * 1024 \<and> \<not> ReadFails ?req \<and>
      Unmarshal_ChatRequest ?E (RequestBody ?req) =
        Some \<lparr>Model = ''gpt-4'', Messages = [], Stream = False\<rparr> \<and>
      length (Messages \<lparr>Model = ''gpt-4'', Messages = [], Stream = False\<rparr>) \<le> 50 \<and>
      \<not> allowed claude_tenant (Model \<lparr>Model = ''gpt-4'', Messages = [], Stream = False\<rparr>)"
    by (simp add: example_request_def example_body_def example_env_def claude_tenant_def
        example_tenant_def allowed_def)
  note t = usage_recorded_once
    [where E = ?E and tenantCtx = "Some example_tenant" and req = ?req
       and p = "example_plan [] []" and h = new_handler and tn = claude_tenant
       and cr = "\<lparr>Model = ''gpt-4'', Messages = [], Stream = False\<rparr>"
       and rid = "''request-1''" and tk = ?tk and rl = empty_limits and us = empty_sink]
  have w: "wg (snd (CreateCompletion ?E (Some example_tenant) ?req new_handler)) = [?tk]"
    using forwarded_wg [OF example_intake_plan r]
    by (simp add: example_plan_simps example_tenant_def new_handler_def example_request_def
        example_body_def)
  have b: "Records (fst (snd (bookkeeping ''request-1'' ?tk empty_limits empty_sink))) =
     [usage_record ''request-1'' ?tk]"
    using t by (simp add: empty_sink_def)
  have c: "CreateCompletion ?E (Some claude_tenant) ?req new_handler =
     (error_response StatusForbidden ''Model not allowed for this tenant'', new_handler)"
    using t f by blast
  show ?thesis
    using w b c by (simp add: usage_record_def)
qed

theorem bookkeeping_any_status_witness:
  "Status (fst (CreateCompletion (example_env (always 404)) (Some example_tenant)
                  (example_request [] [] example_body) new_handler)) = 404 \<and>
   wg (snd (CreateCompletion (example_env (always 404)) (Some example_tenant)
              (example_request [] [] example_body) new_handler)) =
     [\<lparr>task_tid = ''t1'', task_mid = ''gpt-4'', task_in = 8, task_out = 0, task_start = 0\<rparr>] \<and>
   TPM (fst (bookkeeping ''request-1''
     \<lparr>task_tid = ''t1'', task_mid = ''gpt-4'', task_in = 8, task_out = 0, task_start = 0\<rparr>
     empty_limits empty_sink)) ''t1'' = 8 \<and>
   Records (fst (snd (bookkeeping ''request-1''
     \<lparr>task_tid = ''t1'', task_mid = ''gpt-4'', task_in = 8, task_out = 0, task_start = 0\<rparr>
     empty_limits empty_sink))) =
     [\<lparr>UsageRecord.TenantID = ''t1'', Timestamp = 0, RequestID = ''request-1'',
       UsageRecord.ModelID = ''gpt-4'', InputTokens = 8, OutputTokens = 0\<rparr>]"
proof -
  let ?E = "example_env (always 404)"
  let ?tk = "\<lparr>task_tid = ''t1'', task_mid = ''gpt-4'', task_in = 8, task_out = 0,
              task_start = 0\<rparr>"
  have r: "retry ?E (baseURLs (example_plan [] [])) (retryMax (example_plan [] []))
      (backoffMs (example_plan [] [])) loop0 new_handler =
     (Finished (Some \<lparr>StatusCode = 404, RespHeader = [], BodyBytes = [], ReadAllTime = 0,
                      BodyLines = []\<rparr>) None,
      new_handler\<lparr>cb := (cb new_handler)\<lparr>counts :=
         \<lparr>Requests = 1, TotalSuccesses = 1, TotalFailures = 0, ConsecutiveSuccesses = 1,
          ConsecutiveFailures = 0\<rparr>\<rparr>,
        contacted := [''http://a'']\<rparr>)"
    by (simp add: example_plan_simps retry_always_forwarded)
  have lt: "StatusCode \<lparr>StatusCode = 404, RespHeader = [], BodyBytes = [], ReadAllTime = 0,
                      BodyLines = []\<rparr> < 500"
    by simp
  note t = bookkeeping_any_status [OF example_intake_plan r lt]
  have e: "Err empty_limits = None" "Failures empty_sink = []"
    by (simp_all add: empty_limits_def empty_sink_def)
  have 1: "Status (fst (CreateCompletion ?E (Some example_tenant)
                  (example_request [] [] example_body) new_handler)) = 404"
    using t by simp
  have 2: "wg (snd (CreateCompletion ?E (Some example_tenant)
              (example_request [] [] example_body) new_handler)) = [?tk]"
    using t
    by (simp add: example_plan_simps example_tenant_def new_handler_def example_request_def
        example_body_def)
  have 3: "TPM (fst (bookkeeping ''request-1'' ?tk empty_limits empty_sink)) (task_tid ?tk) =
      wrap64 (TPM empty_limits (task_tid ?tk) + (task_in ?tk + task_out ?tk))"
    using t e by blast
  have 4: "Records (fst (snd (bookkeeping ''request-1'' ?tk empty_limits empty_sink))) =
      Records empty_sink @ [usage_record ''request-1'' ?tk]"
    using t e by blast
  show ?thesis
    using 1 2 3 4 by (simp add: usage_record_def empty_limits_def empty_sink_def wrap64_def)
qed

lemma serve_stale_inactive:
  "Status (fst (serve (example_env (always 200)) (request_with_key ''inactive-key'') stale_gateway)) = 200"
proof -
  let ?E = "example_env (always 200)"
  let ?t = "inactive_tenant\<lparr>IsActive := True\<rparr>"
  let ?req = "request_with_key ''inactive-key''"
  let ?p = "\<lparr>caller = ?t, bodyBytes = example_body,
            chatReq = \<lparr>Model = ''gpt-4'', Messages = [], Stream = False\<rparr>,
            baseURLs = [''http://a'', ''http://b''], apiKey = ''sk-upstream'',
            retryMax = 3, backoffMs = 100\<rparr>"
  have hd: "Authorization ?req = ''Bearer inactive-key''"
    by (simp add: request_with_key_def)
  have auth: "AuthMiddleware (\<lambda>s. GetTenant s (clock (handler stale_gateway)))
      (tenantStore stale_gateway) (Authorization ?req) = (Next ?t, stale_store)"
    unfolding hd
    by (simp add: AuthMiddleware_Bearer [OF Split_Bearer] GetTenant_def stale_gateway_def
        stale_store_def new_handler_def)
  have admit: "RateLimitMiddleware (rateLimits stale_gateway) (Some ?t) =
      (Next (), empty_limits\<lparr>RPM := (RPM empty_limits)(''t2'' := 1)\<rparr>)"
    by (simp add: RateLimitMiddleware_def IncrementRPM_def GetTPM_def stale_gateway_def
        empty_limits_def inactive_tenant_def wrap64_def)
  have intake: "intake ?E (Some ?t) ?req = Inr ?p"
    by (simp add: intake_def example_env_def request_with_key_def example_request_def
        example_body_def inactive_tenant_def example_model_def allowed_def retryMax_of_def
        backoffMs_of_def)
  have r: "retry ?E (baseURLs ?p) (retryMax ?p) (backoffMs ?p) loop0 (handler stale_gateway) =
     (Finished (Some \<lparr>StatusCode = 200, RespHeader = [], BodyBytes = [], ReadAllTime = 0,
                      BodyLines = []\<rparr>) None,
      new_handler\<lparr>cb := (cb new_handler)\<lparr>counts :=
         \<lparr>Requests = 1, TotalSuccesses = 1, TotalFailures = 0, ConsecutiveSuccesses = 1,
          ConsecutiveFailures = 0\<rparr>\<rparr>,
        contacted := [''http://a'']\<rparr>)"
    by (simp add: retry_always_forwarded stale_gateway_def)
  have "Status (fst (CreateCompletion ?E (Some ?t) ?req (handler stale_gateway))) = 200"
    by (simp add: CreateCompletion_forwarded [OF intake r] forward_result)
  then show ?thesis
    by (simp add: serve_def auth admit case_prod_beta)
qed

lemma serve_stale_unknown:
  "fst (serve (example_env (always 200)) (request_with_key ''unknown-key'') stale_gateway) =
     error_response StatusUnauthorized ''Invalid API Key''"
proof -
  have hd: "Authorization (request_with_key ''unknown-key'') = ''Bearer unknown-key''"
    by (simp add: request_with_key_def)
  have "AuthMiddleware (\<lambda>s. GetTenant s (clock (handler stale_gateway)))
      (tenantStore stale_gateway) (Authorization (request_with_key ''unknown-key'')) =
      (Abort (error_response StatusUnauthorized ''Invalid API Key''), stale_store)"
    unfolding hd
    by (simp add: AuthMiddleware_Bearer [OF Split_Bearer_unknown] GetTenant_def fetchTenant_def
        stale_gateway_def stale_store_def)
  then show ?thesis
    by (simp add: serve_def)
qed

text \<open>
  C8, as stated, fails: \<open>GetTenant\<close> answers from its cache for 60 minutes without
  reading the table. A tenant whose stored record has become inactive while the cache
  still holds it is authenticated, while an unknown key is answered 401: the two
  responses sent to the caller differ (the upstream's 200 for the one, 401 for the
  other).
\<close>

theorem stale_cache_admits_inactive_tenant:
  "table stale_store ''inactive-key'' = Item inactive_tenant \<and> \<not> IsActive inactive_tenant \<and>
   table stale_store ''unknown-key'' = NoItem \<and>
   fst (AuthMiddleware (\<lambda>s. GetTenant s 50) stale_store ''Bearer inactive-key'') =
     Next (inactive_tenant\<lparr>IsActive := True\<rparr>) \<and>
   fst (AuthMiddleware (\<lambda>s. GetTenant s 50) stale_store ''Bearer unknown-key'') =
     Abort (error_response StatusUnauthorized ''Invalid API Key'') \<and>
   fst (AuthMiddleware (\<lambda>s. GetTenant s 50) stale_store ''Bearer inactive-key'') \<noteq>
     fst (AuthMiddleware (\<lambda>s. GetTenant s 50) stale_store ''Bearer unknown-key'') \<and>
   Status (fst (serve (example_env (always 200)) (request_with_key ''inactive-key'')
                  stale_gateway)) = 200 \<and>
   fst (serve (example_env (always 200)) (request_with_key ''unknown-key'') stale_gateway) =
     error_response StatusUnauthorized ''Invalid API Key''"
  by (simp add: AuthMiddleware_Bearer [OF Split_Bearer] AuthMiddleware_Bearer [OF Split_Bearer_unknown]
      GetTenant_def fetchTenant_def stale_store_def inactive_tenant_def
      serve_stale_inactive serve_stale_unknown)

subsection \<open>The breaker\<close>

lemma Execute_closed_success:
  assumes "state (cb h) = StateClosed" "expiry (cb h) = Some e" "clock h + took \<le> e"
    "Do E (length (contacted h)) url = (took, Inr r)"
  shows "Execute E url h =
     (Inr r, h\<lparr>cb := (cb h)\<lparr>counts := onSuccess (onRequest (counts (cb h)))\<rparr>,
               clock := clock h + took, contacted := contacted h @ [url]\<rparr>)"
  using assms
  by (simp add: Execute_def beforeRequest_def afterRequest_def currentState_def Before_def
      cb_onSuccess_def Let_def)

lemma Execute_closed_failure:
  assumes "state (cb h) = StateClosed" "expiry (cb h) = Some e" "clock h + took \<le> e"
    "Do E (length (contacted h)) url = (took, Inl msg)"
  shows "Execute E url h =
     (Inl (TransportError msg),
      h\<lparr>cb := (if ReadyToTrip (onFailure (onRequest (counts (cb h))))
                then \<lparr>state = StateOpen, generation = (generation (cb h) + 1) mod 2 ^ 64,
                      counts = clear, expiry = Some (clock h + took + Timeout)\<rparr>
                else (cb h)\<lparr>counts := onFailure (onRequest (counts (cb h)))\<rparr>),
        clock := clock h + took, contacted := contacted h @ [url]\<rparr>)"
  using assms
  by (simp add: Execute_def beforeRequest_def afterRequest_def currentState_def Before_def
      cb_onFailure_def setState_def toNewGeneration_def Let_def)

lemma Execute_open:
  assumes "state (cb h) = StateOpen" "expiry (cb h) = Some e" "clock h \<le> e"
  shows "Execute E url h = (Inl ErrOpenState, h)"
  using assms
  by (simp add: Execute_def beforeRequest_def currentState_def Before_def Let_def)

lemma CreateCompletion_open:
  assumes "state (cb h) = StateOpen" "expiry (cb h) = Some e" "clock h \<le> e"
    "intake E tenantCtx req = Inr p" "NewRequest_ok E (baseURLs p ! 0)"
  shows "CreateCompletion E tenantCtx req h =
     (\<lparr>Status = 502, Header = [],
       Body = JSON [(''details'', JString ''circuit breaker is open''),
                    (''error'', JString ''Upstream provider failed'')]\<rparr>, h)"
proof -
  have a: "attempt loop0 \<le> retryMax p"
    using intake_retryMax_nonneg [OF assms(4)] by (simp add: loop0_def)
  have u: "baseURLs p ! (urlIndex loop0 mod length (baseURLs p)) = baseURLs p ! 0"
    by (simp add: loop0_def)
  have "retry E (baseURLs p) (retryMax p) (backoffMs p) loop0 h =
      (Finished (resp (record_result (Inl ErrOpenState) loop0))
         (lastErr (record_result (Inl ErrOpenState) loop0)), h)"
    by (rule retry_stop [OF a]) (simp_all add: u assms(5) Execute_open [OF assms(1,2,3)])
  then have "retry E (baseURLs p) (retryMax p) (backoffMs p) loop0 h =
      (Finished None (Some ErrOpenState), h)"
    by (simp add: record_result_def loop0_def)
  from CreateCompletion_finished [OF assms(4) this] show ?thesis
    by (simp add: respond_def Error_def StatusBadGateway_def)
qed

text \<open>
  C1, amended: the breaker counts as a failure a call that ends in a transport error,
  and as a success a call that returns a response of any status (HTTP 500 included).
  While it is closed and its 60 s window has not ended, a call that fails opens it
  exactly when, that call counted, the window holds at least 10 requests of which at
  least 60% failed (in particular the tenth of ten calls that all failed); a call that
  succeeds leaves it closed. While it is open and its 30 s cool-down has not ended, a
  proxied request that reaches the loop is answered 502 with the details
  \<open>circuit breaker is open\<close> and leaves the handler as it was: no upstream is
  contacted.
\<close>

theorem breaker_counts_transport_errors:
  "(state (cb h) = StateClosed \<and> expiry (cb h) = Some e \<and> clock h + took \<le> e \<and>
    Do E (length (contacted h)) url = (took, Inl msg) \<longrightarrow>
      fst (Execute E url h) = Inl (TransportError msg) \<and>
      state (cb (snd (Execute E url h))) =
        (if ReadyToTrip (onFailure (onRequest (counts (cb h)))) then StateOpen else StateClosed) \<and>
      (ReadyToTrip (onFailure (onRequest (counts (cb h)))) \<longrightarrow>
         expiry (cb (snd (Execute E url h))) = Some (clock h + took + Timeout)) \<and>
      (\<not> ReadyToTrip (onFailure (onRequest (counts (cb h)))) \<longrightarrow>
         counts (cb (snd (Execute E url h))) = onFailure (onRequest (counts (cb h))))) \<and>
   (state (cb h) = StateClosed \<and> expiry (cb h) = Some e \<and> clock h + took \<le> e \<and>
    Do E (length (contacted h)) url = (took, Inr r) \<longrightarrow>
      fst (Execute E url h) = Inr r \<and>
      state (cb (snd (Execute E url h))) = StateClosed \<and>
      counts (cb (snd (Execute E url h))) = onSuccess (onRequest (counts (cb h)))) \<and>
   ReadyToTrip c = (Requests c \<ge> 10 \<and> real (TotalFailures c) / real (Requests c) \<ge> 0.6) \<and>
   ReadyToTrip (failed 10) \<and>
   (state (cb h) = StateOpen \<and> expiry (cb h) = Some e \<and> clock h \<le> e \<and>
    intake E tenantCtx req = Inr p \<and> NewRequest_ok E (baseURLs p ! 0) \<longrightarrow>
      CreateCompletion E tenantCtx req h =
        (\<lparr>Status = 502, Header = [],
          Body = JSON [(''details'', JString ''circuit breaker is open''),
                       (''error'', JString ''Upstream provider failed'')]\<rparr>, h))"
proof -
  have a: "fst (Execute E url h) = Inl (TransportError msg) \<and>
      state (cb (snd (Execute E url h))) =
        (if ReadyToTrip (onFailure (onRequest (counts (cb h)))) then StateOpen else StateClosed) \<and>
      (ReadyToTrip (onFailure (onRequest (counts (cb h)))) \<longrightarrow>
         expiry (cb (snd (Execute E url h))) = Some (clock h + took + Timeout)) \<and>
      (\<not> ReadyToTrip (onFailure (onRequest (counts (cb h)))) \<longrightarrow>
         counts (cb (snd (Execute E url h))) = onFailure (onRequest (counts (cb h))))"
    if "state (cb h) = StateClosed" "expiry (cb h) = Some e" "clock h + took \<le> e"
      "Do E (length (contacted h)) url = (took, Inl msg)"
    using that by (simp add: Execute_closed_failure [OF that])
  have b: "fst (Execute E url h) = Inr r \<and>
      state (cb (snd (Execute E url h))) = StateClosed \<and>
      counts (cb (snd (Execute E url h))) = onSuccess (onRequest (counts (cb h)))"
    if "state (cb h) = StateClosed" "expiry (cb h) = Some e" "clock h + took \<le> e"
      "Do E (length (contacted h)) url = (took, Inr r)"
    using that by (simp add: Execute_closed_success [OF that])
  have c: "ReadyToTrip c = (Requests c \<ge> 10 \<and> real (TotalFailures c) / real (Requests c) \<ge> 0.6)"
    by (simp add: ReadyToTrip_def Let_def)
  have d: "ReadyToTrip (failed 10)"
    by (simp add: ReadyToTrip_def failed_def)
  have e: "CreateCompletion E tenantCtx req h =
        (\<lparr>Status = 502, Header = [],
          Body = JSON [(''details'', JString ''circuit breaker is open''),
                       (''error'', JString ''Upstream provider failed'')]\<rparr>, h)"
    if "state (cb h) = StateOpen" "expiry (cb h) = Some e" "clock h \<le> e"
      "intake E tenantCtx req = Inr p" "NewRequest_ok E (baseURLs p ! 0)"
    by (rule CreateCompletion_open [OF that])
  show ?thesis
    using a b c d e by blast
qed

subsection \<open>Requests with a single attempt\<close>

lemma retry_last_attempt:
  assumes "attempt l = rm" "NewRequest_ok E (urls ! (urlIndex l mod length urls))"
    "Execute E (urls ! (urlIndex l mod length urls)) h = (res, h1)"
  shows "retry E urls rm bo l h =
     (Finished (resp (record_result res l)) (lastErr (record_result res l)), h1)"
proof (cases "res = Inl ErrOpenState \<or> succeeded (record_result res l)")
  case True
  show ?thesis
    by (rule retry_stop [OF _ assms(2,3) True]) (simp add: assms(1))
next
  case False
  obtain l2 h2 where fh: "failure_handling rm bo (record_result res l) h1 = (l2, h2)"
    by (cases "failure_handling rm bo (record_result res l) h1")
  have over: "\<not> attempt l2 \<le> rm"
    using attempt_failure_handling [OF fh] assms(1) by (simp add: attempt_record_result)
  have same: "h2 = h1 \<and> resp l2 = resp (record_result res l) \<and>
      lastErr l2 = lastErr (record_result res l)"
    using fh assms(1)
    by (auto simp: failure_handling_def Let_def attempt_record_result split: if_splits)
  have "retry E urls rm bo l h = retry E urls rm bo l2 h2"
    using False by (intro retry_again [OF _ assms(2,3) _ _ fh]) (simp_all add: assms(1))
  then show ?thesis
    using retry_done [OF over, of E urls bo h2] same by simp
qed

lemma Atoi_0: "Atoi ''0'' = Some 0"
  by (simp add: Atoi_def digit_def)

lemma request_once_intake:
  "intake (example_env d) (Some example_tenant) request_once = Inr (example_plan ''0'' [])"
  unfolding request_once_def by (rule example_intake_plan)

lemma request_once_retryMax: "retryMax (example_plan ''0'' []) = 0"
  by (simp add: example_plan_def retryMax_of_def example_request_def Atoi_0)

lemma CreateCompletion_once:
  assumes "Execute (example_env d) ''http://a'' h = (res, h1)"
  shows "CreateCompletion (example_env d) (Some example_tenant) request_once h =
     respond (example_env d) (example_plan ''0'' []) (clock h)
       (resp (record_result res loop0)) (lastErr (record_result res loop0)) h1"
proof -
  have "retry (example_env d) (baseURLs (example_plan ''0'' [])) (retryMax (example_plan ''0'' []))
      (backoffMs (example_plan ''0'' [])) loop0 h =
     (Finished (resp (record_result res loop0)) (lastErr (record_result res loop0)), h1)"
    by (rule retry_last_attempt)
       (simp_all add: request_once_retryMax example_plan_simps example_env_simps loop0_def assms)
  from CreateCompletion_finished [OF request_once_intake this] show ?thesis .
qed

lemma request_500:
  assumes "state (cb h) = StateClosed" "expiry (cb h) = Some e" "clock h \<le> e"
  shows "CreateCompletion (example_env (always 500)) (Some example_tenant) request_once h =
     (\<lparr>Status = 502, Header = [],
       Body = JSON [(''error'', JString ''Upstream provider error''), (''status'', JInt 500)]\<rparr>,
      h\<lparr>cb := (cb h)\<lparr>counts := onSuccess (onRequest (counts (cb h)))\<rparr>,
        contacted := contacted h @ [''http://a'']\<rparr>)"
proof -
  have "Execute (example_env (always 500)) ''http://a'' h =
     (Inr \<lparr>StatusCode = 500, RespHeader = [], BodyBytes = [], ReadAllTime = 0, BodyLines = []\<rparr>,
      h\<lparr>cb := (cb h)\<lparr>counts := onSuccess (onRequest (counts (cb h)))\<rparr>,
        clock := clock h + 0, contacted := contacted h @ [''http://a'']\<rparr>)"
    by (rule Execute_closed_success [OF assms(1,2)])
       (simp_all add: assms(3) example_env_simps always_def)
  from CreateCompletion_once [OF this] show ?thesis
    by (simp add: respond_def record_result_def loop0_def StatusBadGateway_def)
qed

lemma request_unreachable:
  assumes "state (cb h) = StateClosed" "expiry (cb h) = Some e" "clock h \<le> e"
  shows "CreateCompletion (example_env unreachable) (Some example_tenant) request_once h =
     (\<lparr>Status = 502, Header = [],
       Body = JSON [(''details'', JString ''connection refused''),
                    (''error'', JString ''Upstream provider failed'')]\<rparr>,
      h\<lparr>cb := (if ReadyToTrip (onFailure (onRequest (counts (cb h))))
                then \<lparr>state = StateOpen, generation = (generation (cb h) + 1) mod 2 ^ 64,
                      counts = clear, expiry = Some (clock h + Timeout)\<rparr>
                else (cb h)\<lparr>counts := onFailure (onRequest (counts (cb h)))\<rparr>),
        contacted := contacted h @ [''http://a'']\<rparr>)"
proof -
  have "Execute (example_env unreachable) ''http://a'' h =
     (Inl (TransportError ''connection refused''),
      h\<lparr>cb := (if ReadyToTrip (onFailure (onRequest (counts (cb h))))
                then \<lparr>state = StateOpen, generation = (generation (cb h) + 1) mod 2 ^ 64,
                      counts = clear, expiry = Some (clock h + 0 + Timeout)\<rparr>
                else (cb h)\<lparr>counts := onFailure (onRequest (counts (cb h)))\<rparr>),
        clock := clock h + 0, contacted := contacted h @ [''http://a'']\<rparr>)"
    by (rule Execute_closed_failure [OF assms(1,2)])
       (simp_all add: assms(3) example_env_simps unreachable_def)
  from CreateCompletion_once [OF this] show ?thesis
    by (simp add: respond_def record_result_def loop0_def StatusBadGateway_def Error_def)
qed

lemma CreateCompletions_Cons:
  "CreateCompletions E tn ((idle, req) # reqs) h =
     (fst (CreateCompletion E (Some tn) req (h\<lparr>clock := clock h + idle\<rparr>)) #
        fst (CreateCompletions E tn reqs
               (snd (CreateCompletion E (Some tn) req (h\<lparr>clock := clock h + idle\<rparr>)))),
      snd (CreateCompletions E tn reqs
             (snd (CreateCompletion E (Some tn) req (h\<lparr>clock := clock h + idle\<rparr>)))))"
  by (simp split: prod.splits)

lemma CreateCompletions_snoc:
  "CreateCompletions E tn (reqs @ [(idle, req)]) h =
     (fst (CreateCompletions E tn reqs h) @
        [fst (CreateCompletion E (Some tn) req
                ((snd (CreateCompletions E tn reqs h))
                   \<lparr>clock := clock (snd (CreateCompletions E tn reqs h)) + idle\<rparr>))],
      snd (CreateCompletion E (Some tn) req
             ((snd (CreateCompletions E tn reqs h))
                \<lparr>clock := clock (snd (CreateCompletions E tn reqs h)) + idle\<rparr>)))"
proof (induction reqs arbitrary: h)
  case Nil
  then show ?case
    by (simp split: prod.splits)
next
  case (Cons x reqs)
  obtain i r where x: "x = (i, r)"
    by (cases x)
  show ?case
    unfolding x append_Cons CreateCompletions_Cons Cons.IH by simp
qed

lemma requests_500:
  assumes "state (cb h) = StateClosed" "expiry (cb h) = Some e" "clock h + n * Second \<le> e"
  shows "fst (CreateCompletions (example_env (always 500)) example_tenant
                (replicate n (Second, request_once)) h) =
       replicate n \<lparr>Status = 502, Header = [],
         Body = JSON [(''error'', JString ''Upstream provider error''), (''status'', JInt 500)]\<rparr> \<and>
     state (cb (snd (CreateCompletions (example_env (always 500)) example_tenant
                       (replicate n (Second, request_once)) h))) = StateClosed \<and>
     expiry (cb (snd (CreateCompletions (example_env (always 500)) example_tenant
                       (replicate n (Second, request_once)) h))) = Some e \<and>
     clock (snd (CreateCompletions (example_env (always 500)) example_tenant
                       (replicate n (Second, request_once)) h)) = clock h + n * Second \<and>
     contacted (snd (CreateCompletions (example_env (always 500)) example_tenant
                       (replicate n (Second, request_once)) h)) =
       contacted h @ replicate n ''http://a'' \<and>
     TotalFailures (counts (cb (snd (CreateCompletions (example_env (always 500)) example_tenant
                       (replicate n (Second, request_once)) h)))) = TotalFailures (counts (cb h))"
  using assms
proof (induction n arbitrary: h)
  case 0
  then show ?case by simp
next
  case (Suc n)
  let ?h0 = "h\<lparr>clock := clock h + Second\<rparr>"
  let ?h1 = "?h0\<lparr>cb := (cb ?h0)\<lparr>counts := onSuccess (onRequest (counts (cb ?h0)))\<rparr>,
                contacted := contacted ?h0 @ [''http://a'']\<rparr>"
  have one: "CreateCompletion (example_env (always 500)) (Some example_tenant) request_once ?h0 =
     (\<lparr>Status = 502, Header = [],
       Body = JSON [(''error'', JString ''Upstream provider error''), (''status'', JInt 500)]\<rparr>,
      ?h1)"
    by (rule request_500 [of ?h0 e]) (use Suc.prems in simp_all)
  have ih: "state (cb ?h1) = StateClosed" "expiry (cb ?h1) = Some e"
    "clock ?h1 + n * Second \<le> e"
    using Suc.prems by simp_all
  note rest = Suc.IH [OF ih]
  show ?case
    unfolding replicate_Suc CreateCompletions_Cons one fst_conv snd_conv
    using rest by (simp add: onSuccess_def onRequest_def replicate_append_same)
qed

lemma failed_step: "k < 9 \<Longrightarrow> onFailure (onRequest (failed k)) = failed (Suc k)"
  by (simp add: failed_def onFailure_def onRequest_def uint32_def)

lemma failed_not_ready: "k < 10 \<Longrightarrow> \<not> ReadyToTrip (failed k)"
  by (simp add: ReadyToTrip_def failed_def)

lemma requests_unreachable:
  assumes "state (cb h) = StateClosed" "expiry (cb h) = Some e" "clock h + n * Second \<le> e"
    "counts (cb h) = failed k" "k + n \<le> 9"
  shows "fst (CreateCompletions (example_env unreachable) example_tenant
                (replicate n (Second, request_once)) h) =
       replicate n \<lparr>Status = 502, Header = [],
         Body = JSON [(''details'', JString ''connection refused''),
                      (''error'', JString ''Upstream provider failed'')]\<rparr> \<and>
     state (cb (snd (CreateCompletions (example_env unreachable) example_tenant
                       (replicate n (Second, request_once)) h))) = StateClosed \<and>
     expiry (cb (snd (CreateCompletions (example_env unreachable) example_tenant
                       (replicate n (Second, request_once)) h))) = Some e \<and>
     clock (snd (CreateCompletions (example_env unreachable) example_tenant
                       (replicate n (Second, request_once)) h)) = clock h + n * Second \<and>
     contacted (snd (CreateCompletions (example_env unreachable) example_tenant
                       (replicate n (Second, request_once)) h)) =
       contacted h @ replicate n ''http://a'' \<and>
     counts (cb (snd (CreateCompletions (example_env unreachable) example_tenant
                       (replicate n (Second, request_once)) h))) = failed (k + n)"
  using assms
proof (induction n arbitrary: h k)
  case 0
  then show ?case by simp
next
  case (Suc n)
  let ?h0 = "h\<lparr>clock := clock h + Second\<rparr>"
  let ?h1 = "?h0\<lparr>cb := (cb ?h0)\<lparr>counts := failed (Suc k)\<rparr>,
                contacted := contacted ?h0 @ [''http://a'']\<rparr>"
  have k: "k < 9"
    using Suc.prems by simp
  have nr: "\<not> ReadyToTrip (failed (Suc k))"
    using k by (intro failed_not_ready) simp
  have one: "CreateCompletion (example_env unreachable) (Some example_tenant) request_once ?h0 =
     (\<lparr>Status = 502, Header = [],
       Body = JSON [(''details'', JString ''connection refused''),
                    (''error'', JString ''Upstream provider failed'')]\<rparr>, ?h1)"
    using request_unreachable [of ?h0 e] Suc.prems by (simp add: failed_step [OF k] nr)
  have ih: "state (cb ?h1) = StateClosed" "expiry (cb ?h1) = Some e"
    "clock ?h1 + n * Second \<le> e" "counts (cb ?h1) = failed (Suc k)" "Suc k + n \<le> 9"
    using Suc.prems by simp_all
  note rest = Suc.IH [OF ih]
  show ?case
    unfolding replicate_Suc CreateCompletions_Cons one fst_conv snd_conv
    using rest by (simp add: replicate_append_same)
qed


lemma new_handler_simps:
  "state (cb new_handler) = StateClosed" "expiry (cb new_handler) = Some Interval"
  "clock new_handler = 0" "contacted new_handler = []" "counts (cb new_handler) = failed 0"
  by (simp_all add: new_handler_def NewCircuitBreaker_def toNewGeneration_def clear_def failed_def)

lemma replicate_ten: "x # replicate 9 x = replicate 10 x"
proof -
  have "(10::nat) = Suc 9"
    by simp
  then show ?thesis
    by (simp only: replicate_Suc)
qed

lemma ten_seconds: "0 + 10 * Second \<le> Interval" "0 + 9 * Second \<le> Interval"
  by (simp_all add: Interval_def)

text \<open>
  C1, as stated, fails: ten consecutive requests, one second apart, whose upstream call
  returns HTTP 500 leave the breaker closed with no failure counted, and the eleventh
  request contacts the upstream again (and is answered 502 for the upstream's 500, not
  for an open breaker).
\<close>

theorem http_500_leaves_breaker_closed:
  "fst (CreateCompletions (example_env (always 500)) example_tenant ten_requests new_handler) =
     replicate 10 \<lparr>Status = 502, Header = [],
       Body = JSON [(''error'', JString ''Upstream provider error''), (''status'', JInt 500)]\<rparr> \<and>
   state (cb (after_ten (always 500))) = StateClosed \<and>
   TotalFailures (counts (cb (after_ten (always 500)))) = 0 \<and>
   contacted (after_ten (always 500)) = replicate 10 ''http://a'' \<and>
   fst (CreateCompletion (example_env (always 500)) (Some example_tenant) request_once
          ((after_ten (always 500))\<lparr>clock := clock (after_ten (always 500)) + Second\<rparr>)) =
     \<lparr>Status = 502, Header = [],
       Body = JSON [(''error'', JString ''Upstream provider error''), (''status'', JInt 500)]\<rparr> \<and>
   contacted (snd (CreateCompletion (example_env (always 500)) (Some example_tenant) request_once
          ((after_ten (always 500))\<lparr>clock := clock (after_ten (always 500)) + Second\<rparr>))) =
     replicate 10 ''http://a'' @ [''http://a'']"
proof -
  note ten = requests_500 [of new_handler Interval 10, OF new_handler_simps(1,2),
      unfolded new_handler_simps, OF ten_seconds(1), folded ten_requests_def after_ten_def]
  let ?h = "(after_ten (always 500))\<lparr>clock := clock (after_ten (always 500)) + Second\<rparr>"
  have "state (cb ?h) = StateClosed" "expiry (cb ?h) = Some Interval" "clock ?h \<le> Interval"
    using ten by (simp_all add: Interval_def)
  from request_500 [OF this] ten show ?thesis
    by (simp add: failed_def)
qed

theorem breaker_counts_transport_errors_witness:
  "state (cb (after_ten unreachable)) = StateOpen \<and>
   contacted (after_ten unreachable) = replicate 10 ''http://a'' \<and>
   CreateCompletion (example_env unreachable) (Some example_tenant) request_once
     ((after_ten unreachable)\<lparr>clock := clock (after_ten unreachable) + Second\<rparr>) =
     (\<lparr>Status = 502, Header = [],
       Body = JSON [(''details'', JString ''circuit breaker is open''),
                    (''error'', JString ''Upstream provider failed'')]\<rparr>,
      (after_ten unreachable)\<lparr>clock := clock (after_ten unreachable) + Second\<rparr>) \<and>
   fst (Execute (example_env unreachable) ''http://a'' new_handler) =
     Inl (TransportError ''connection refused'') \<and>
   state (cb (snd (Execute (example_env (always 500)) ''http://a'' new_handler))) = StateClosed"
proof -
  let ?E = "example_env unreachable"
  let ?h9 = "snd (CreateCompletions ?E example_tenant (replicate 9 (Second, request_once))
                    new_handler)"
  let ?h0 = "?h9\<lparr>clock := clock ?h9 + Second\<rparr>"
  have nine: "state (cb ?h9) = StateClosed" "expiry (cb ?h9) = Some Interval"
    "clock ?h9 = 9 * Second" "contacted ?h9 = replicate 9 ''http://a''"
    "counts (cb ?h9) = failed 9"
    using requests_unreachable [of new_handler Interval 9 0, OF new_handler_simps(1,2)]
      ten_seconds(2)
    by (simp_all add: new_handler_simps)
  have split: "ten_requests = replicate 9 (Second, request_once) @ [(Second, request_once)]"
  proof -
    have "(10::nat) = Suc 9"
      by simp
    then show ?thesis
      unfolding ten_requests_def by (simp only: replicate_Suc replicate_append_same)
  qed
  have ten: "after_ten unreachable = snd (CreateCompletion ?E (Some example_tenant) request_once ?h0)"
    by (simp add: after_ten_def split CreateCompletions_snoc)
  have f10: "onFailure (onRequest (failed 9)) = failed 10"
    by (simp add: failed_def onFailure_def onRequest_def uint32_def)
  note t = breaker_counts_transport_errors
  have trip: "ReadyToTrip (failed 10)"
    using t by blast
  have h0: "state (cb ?h0) = StateClosed" "expiry (cb ?h0) = Some Interval" "clock ?h0 \<le> Interval"
    using nine by (simp_all add: Interval_def)
  have opened: "after_ten unreachable =
      ?h0\<lparr>cb := \<lparr>state = StateOpen, generation = (generation (cb ?h0) + 1) mod 2 ^ 64,
                  counts = clear, expiry = Some (clock ?h0 + Timeout)\<rparr>,
          contacted := contacted ?h0 @ [''http://a'']\<rparr>"
    unfolding ten request_unreachable [OF h0] using nine(5) trip by (simp add: f10)
  let ?h10 = "(after_ten unreachable)\<lparr>clock := clock (after_ten unreachable) + Second\<rparr>"
  have o: "state (cb ?h10) = StateOpen \<and> expiry (cb ?h10) = Some (10 * Second + Timeout) \<and>
      clock ?h10 \<le> 10 * Second + Timeout \<and>
      intake ?E (Some example_tenant) request_once = Inr (example_plan ''0'' []) \<and>
      NewRequest_ok ?E (baseURLs (example_plan ''0'' []) ! 0)"
    by (subst (1 2 3 4) opened)
       (simp add: nine request_once_intake example_plan_simps example_env_simps Timeout_def)
  have eleventh: "CreateCompletion ?E (Some example_tenant) request_once ?h10 =
     (\<lparr>Status = 502, Header = [],
       Body = JSON [(''details'', JString ''circuit breaker is open''),
                    (''error'', JString ''Upstream provider failed'')]\<rparr>, ?h10)"
    using t [where h = ?h10 and e = "10 * Second + Timeout" and E = ?E
               and tenantCtx = "Some example_tenant" and req = request_once
               and p = "example_plan ''0'' []"] o
    by blast
  have st: "state (cb (after_ten unreachable)) = StateOpen"
    "contacted (after_ten unreachable) = replicate 10 ''http://a''"
    by (subst opened, simp add: nine replicate_append_same replicate_ten)+
  have first: "fst (Execute ?E ''http://a'' new_handler) = Inl (TransportError ''connection refused'')"
    using t [where h = new_handler and e = Interval and took = 0 and E = ?E
               and url = "''http://a''" and msg = "''connection refused''"]
    by (simp add: new_handler_simps example_env_simps unreachable_def)
  have second: "state (cb (snd (Execute (example_env (always 500)) ''http://a'' new_handler))) =
      StateClosed"
    using t [where h = new_handler and e = Interval and took = 0
               and E = "example_env (always 500)" and url = "''http://a''"
               and r = "\<lparr>StatusCode = 500, RespHeader = [], BodyBytes = [], ReadAllTime = 0,
                          BodyLines = []\<rparr>"]
    by (simp add: new_handler_simps example_env_simps always_def)
  show ?thesis
    using st eleventh first second by simp
qed

end
